theory Spec2Isabelle
  imports Main "HOL-Library.Word"
begin

unbundle bit_operations_syntax

section \<open>Class UIDs (api.h)\<close>

text \<open>The two anonymous enums of api.h that number the classes of the engine's core and
  give the lowest UID that user code may use.\<close>

definition SPN_USER_CLASS_UID_BASE :: nat where
  "SPN_USER_CLASS_UID_BASE = 0x10000"

definition SPN_CLASS_UID_STRING :: nat where
  "SPN_CLASS_UID_STRING = 1"

definition SPN_CLASS_UID_ARRAY :: nat where
  "SPN_CLASS_UID_ARRAY = 2"

definition SPN_CLASS_UID_HASHMAP :: nat where
  "SPN_CLASS_UID_HASHMAP = 3"

definition SPN_CLASS_UID_FUNCTION :: nat where
  "SPN_CLASS_UID_FUNCTION = 4"

definition SPN_CLASS_UID_FILEHANDLE :: nat where
  "SPN_CLASS_UID_FILEHANDLE = 5"

definition SPN_CLASS_UID_SYMTABENTRY :: nat where
  "SPN_CLASS_UID_SYMTABENTRY = 6"

definition SPN_CLASS_UID_SYMBOLSTUB :: nat where
  "SPN_CLASS_UID_SYMBOLSTUB = 7"

text \<open>The members of the second enum, in the order of their declaration.\<close>

definition core_class_uids :: "nat list" where
  "core_class_uids =
     [SPN_CLASS_UID_STRING, SPN_CLASS_UID_ARRAY, SPN_CLASS_UID_HASHMAP,
      SPN_CLASS_UID_FUNCTION, SPN_CLASS_UID_FILEHANDLE, SPN_CLASS_UID_SYMTABENTRY,
      SPN_CLASS_UID_SYMBOLSTUB]"

section \<open>Command-line arguments (spn.c)\<close>

definition FLAG_PRINTNIL :: int where "FLAG_PRINTNIL = push_bit 8 1"








section \<open>The Context API the driver calls\<close>

text \<open>Modelled from the spec: the error kinds of a Context, \<^verbatim>\<open>enum spn_error_type\<close> of
  ctx.h, which is not among the sources. The spec lists them as none, syntax, semantic,
  runtime, generic; the driver names \<^verbatim>\<open>SPN_ERROR_RUNTIME\<close> only.\<close>

datatype spn_error_type =
    SPN_ERROR_NONE
  | SPN_ERROR_SYNTAX
  | SPN_ERROR_SEMANTIC
  | SPN_ERROR_RUNTIME
  | SPN_ERROR_GENERIC

text \<open>The functions of the Context API and of the file API that the driver calls are
  declared in headers and implemented elsewhere, so they are parameters of the model:
  \<^typ>\<open>'c\<close> is the state of a Context, \<^typ>\<open>'f\<close> a function object, \<^typ>\<open>'v\<close> a value.
  A call that can change the Context returns the new Context; a function that returns a
  pointer that may be \<^verbatim>\<open>NULL\<close> returns an option; a status is the \<^verbatim>\<open>int\<close> returned.\<close>

record ('c, 'f, 'v) spn_api =
  read_text_file :: "string \<Rightarrow> string option"
  ctx_loadstring :: "'c \<Rightarrow> string \<Rightarrow> 'c \<times> 'f option"
  ctx_compile_expr :: "'c \<Rightarrow> string \<Rightarrow> 'c \<times> 'f option"
  ctx_callfunc :: "'c \<Rightarrow> 'f \<Rightarrow> 'v list \<Rightarrow> 'c \<times> int \<times> 'v"
  ctx_execstring :: "'c \<Rightarrow> string \<Rightarrow> 'c \<times> int \<times> 'v"
  ctx_execobjfile :: "'c \<Rightarrow> string \<Rightarrow> 'c \<times> int"
  ctx_geterrmsg :: "'c \<Rightarrow> string"
  ctx_geterrtype :: "'c \<Rightarrow> spn_error_type"
  ctx_stacktrace :: "'c \<Rightarrow> string list"
  makestring_nocopy :: "string \<Rightarrow> 'v"
  isnil :: "'v \<Rightarrow> bool"
  repl_print :: "'v \<Rightarrow> string"

text \<open>What the driver does to the outside, in the order it does it: text written to the
  two streams, the calls into the Context that compile or run code, and the release of
  the buffer that holds a script's text.\<close>

datatype ('f, 'v) event =
    Stdout string
  | Stderr string
  | Call_loadstring string
  | Call_compile_expr string
  | Call_callfunc 'f "'v list"
  | Call_execstring string
  | Call_execobjfile string
  | Free_buf

section \<open>Text formatting\<close>

definition LF :: char where "LF = CHR 0x0A"
definition CR :: char where "CR = CHR 0x0D"
definition TAB :: char where "TAB = CHR 0x09"
definition NUL :: char where "NUL = CHR 0x00"

text \<open>\<^verbatim>\<open>%u\<close>: an unsigned number in decimal.\<close>

definition digit_char :: "nat \<Rightarrow> char" where
  "digit_char d = char_of (of_char (CHR ''0'') + d)"

fun decimal :: "nat \<Rightarrow> string" where
  "decimal n = (if n < 10 then [digit_char n] else decimal (n div 10) @ [digit_char (n mod 10)])"

declare decimal.simps [simp del]

text \<open>\<^verbatim>\<open>%-4u\<close>: left-justified in a field of at least four characters.\<close>

definition decimal_left4 :: "nat \<Rightarrow> string" where
  "decimal_left4 n = decimal n @ replicate (4 - length (decimal n)) (CHR '' '')"

text \<open>The colour escapes are empty unless the driver is built with \<^verbatim>\<open>USE_ANSI_COLORS\<close>;
  the model is the build without them.\<close>

definition CLR_ERR :: string where "CLR_ERR = []"
definition CLR_VAL :: string where "CLR_VAL = []"
definition CLR_RST :: string where "CLR_RST = []"

section \<open>Running scripts (spn.c)\<close>

text \<open>One line of the call stack: \<^verbatim>\<open>"\\t[%-4u]\\tin %s\\n"\<close> with the index and the name.\<close>

definition stacktrace_line :: "nat \<Rightarrow> string \<Rightarrow> string" where
  "stacktrace_line i name =
     [TAB] @ ''['' @ decimal_left4 i @ '']'' @ [TAB] @ ''in '' @ name @ [LF]"

text \<open>The loop \<^verbatim>\<open>for (i = 0; i < n; i++)\<close> over the frames \<^verbatim>\<open>bt[i]\<close>.\<close>

fun stacktrace_lines :: "nat \<Rightarrow> string list \<Rightarrow> ('f, 'v) event list" where
  "stacktrace_lines i [] = []"
| "stacktrace_lines i (name # bt) = Stderr (stacktrace_line i name) # stacktrace_lines (Suc i) bt"

definition print_stacktrace_if_needed :: "('c, 'f, 'v) spn_api \<Rightarrow> 'c \<Rightarrow> ('f, 'v) event list" where
  "print_stacktrace_if_needed api ctx =
     (if ctx_geterrtype api ctx = SPN_ERROR_RUNTIME then
        (let bt = ctx_stacktrace api ctx
         in [Stderr (''Call stack:'' @ [LF, LF])] @ stacktrace_lines 0 bt @ [Stderr [LF]])
      else [])"

text \<open>A C string ends at its first NUL: what \<^verbatim>\<open>strchr\<close> and the compiler see of a buffer.\<close>

definition c_str :: "string \<Rightarrow> string" where
  "c_str bytes = takeWhile (\<lambda>c. c \<noteq> NUL) bytes"

text \<open>\<^verbatim>\<open>strchr(s, c)\<close> for a character other than NUL: the offset of the first occurrence;
  \<open>None\<close> is the \<^verbatim>\<open>NULL\<close> result.\<close>

fun strchr :: "string \<Rightarrow> char \<Rightarrow> nat option" where
  "strchr [] c = None"
| "strchr (x # xs) c = (if x = c then Some 0 else map_option Suc (strchr xs c))"

text \<open>The first part of \<^verbatim>\<open>run_script_file\<close>: where the text given to the compiler starts.
  \<open>None\<close> is the branch commented "empty script", which returns before compiling.
  Reading \<^verbatim>\<open>buf[1]\<close> is in range when \<^verbatim>\<open>buf[0]\<close> is \<^verbatim>\<open>'#'\<close>: it is at worst the
  terminating NUL.\<close>

definition script_source :: "string \<Rightarrow> string option" where
  "script_source buf =
     (if take 2 buf = ''#!'' then
        (let pn = strchr buf LF; pr = strchr buf CR
         in case (pn, pr) of
              (None, None) \<Rightarrow> None
            | (None, Some r) \<Rightarrow> Some (drop (r + 1) buf)
            | (Some n, None) \<Rightarrow> Some (drop (n + 1) buf)
            | (Some n, Some r) \<Rightarrow> Some (if n < r then drop (r + 1) buf else drop (n + 1) buf))
      else Some buf)"

text \<open>\<^verbatim>\<open>run_script_file\<close>: the new Context, the status returned and the events.\<close>

definition run_script_file ::
  "('c, 'f, 'v) spn_api \<Rightarrow> 'c \<Rightarrow> string \<Rightarrow> string list \<Rightarrow> 'c \<times> int \<times> ('f, 'v) event list" where
  "run_script_file api ctx fname argv =
     (case read_text_file api fname of
        None \<Rightarrow> (ctx, -1, [Stderr (''I/O error: cannot read file'' @ [LF])])
      | Some bytes \<Rightarrow>
          (case script_source (c_str bytes) of
             None \<Rightarrow> (ctx, 0, [Free_buf])
           | Some src \<Rightarrow>
               (case ctx_loadstring api ctx src of
                  (ctx1, None) \<Rightarrow>
                    (ctx1, -1,
                     [Call_loadstring src, Free_buf, Stderr (ctx_geterrmsg api ctx1 @ [LF])])
                | (ctx1, Some fn) \<Rightarrow>
                    (let vals = map (makestring_nocopy api) argv
                     in case ctx_callfunc api ctx1 fn vals of
                          (ctx2, err, ret) \<Rightarrow>
                            (ctx2, err,
                             [Call_loadstring src, Free_buf, Call_callfunc fn vals] @
                             (if err \<noteq> 0 then
                                Stderr (ctx_geterrmsg api ctx2 @ [LF]) #
                                print_stacktrace_if_needed api ctx2
                              else []))))))"


definition EXIT_SUCCESS :: int where "EXIT_SUCCESS = 0"



section \<open>The read-eval-print loop (spn.c)\<close>

text \<open>The body of the loop of \<^verbatim>\<open>enter_repl\<close> once a line \<open>buf\<close> has been read: the new
  Context and the events.\<close>

definition repl_line ::
  "('c, 'f, 'v) spn_api \<Rightarrow> int \<Rightarrow> 'c \<Rightarrow> string \<Rightarrow> 'c \<times> ('f, 'v) event list" where
  "repl_line api args ctx buf =
     (case ctx_execstring api ctx buf of
        (ctx1, status, ret) \<Rightarrow>
          (if status \<noteq> 0 then
             (if ctx_geterrtype api ctx1 = SPN_ERROR_RUNTIME then
                (ctx1,
                 [Call_execstring buf,
                  Stderr (CLR_ERR @ ctx_geterrmsg api ctx1 @ CLR_RST @ [LF])] @
                 print_stacktrace_if_needed api ctx1)
              else
                (let orig_errmsg = ctx_geterrmsg api ctx1
                 in case ctx_compile_expr api ctx1 buf of
                      (ctx2, None) \<Rightarrow>
                        (ctx2,
                         [Call_execstring buf, Call_compile_expr buf,
                          Stderr (CLR_ERR @ orig_errmsg @ CLR_RST @ [LF])])
                    | (ctx2, Some fn) \<Rightarrow>
                        (case ctx_callfunc api ctx2 fn [] of
                           (ctx3, status2, ret2) \<Rightarrow>
                             (if status2 \<noteq> 0 then
                                (ctx3,
                                 [Call_execstring buf, Call_compile_expr buf, Call_callfunc fn [],
                                  Stderr (CLR_ERR @ ctx_geterrmsg api ctx3 @ CLR_RST @ [LF])] @
                                 print_stacktrace_if_needed api ctx3)
                              else
                                (ctx3,
                                 [Call_execstring buf, Call_compile_expr buf, Call_callfunc fn [],
                                  Stdout (''= '' @ CLR_VAL), Stdout (repl_print api ret2),
                                  Stdout (CLR_RST @ [LF])])))))
           else
             (ctx1,
              [Call_execstring buf] @
              (if \<not> isnil api ret \<or> args AND FLAG_PRINTNIL \<noteq> 0
               then [Stdout CLR_VAL, Stdout (repl_print api ret), Stdout (CLR_RST @ [LF])]
               else []))))"

text \<open>The loop itself, on the lines that standard input still holds; it ends when reading
  a line fails, that is when the input is exhausted.\<close>

fun enter_repl_from ::
  "('c, 'f, 'v) spn_api \<Rightarrow> int \<Rightarrow> 'c \<Rightarrow> nat \<Rightarrow> string list \<Rightarrow> int \<times> ('f, 'v) event list" where
  "enter_repl_from api args ctx session_no [] =
     (EXIT_SUCCESS, [Stdout (''spn:'' @ decimal session_no @ ''> ''), Stdout [LF]])"
| "enter_repl_from api args ctx session_no (buf # rest) =
     (case repl_line api args ctx buf of
        (ctx1, evs) \<Rightarrow>
          (case enter_repl_from api args ctx1 (Suc session_no) rest of
             (status, evs2) \<Rightarrow>
               (status, Stdout (''spn:'' @ decimal session_no @ ''> '') # evs @ evs2)))"

definition enter_repl ::
  "('c, 'f, 'v) spn_api \<Rightarrow> int \<Rightarrow> 'c \<Rightarrow> string list \<Rightarrow> int \<times> ('f, 'v) event list" where
  "enter_repl api args ctx input = enter_repl_from api args ctx 1 input"

section \<open>Bytecode words\<close>

text \<open>\<^verbatim>\<open>spn_uword\<close> (api.h) is \<^verbatim>\<open>unsigned int\<close> wherever that type has 32 bits, and a word
  then holds \<^verbatim>\<open>SPN_WORD_OCTETS\<close> = 4 octets; \<^verbatim>\<open>spn_sword\<close> and \<^verbatim>\<open>int\<close> are its signed
  readings. An image is the list of the words of an object file.\<close>

type_synonym spn_uword = "32 word"

definition SPN_WORD_OCTETS :: nat where
  "SPN_WORD_OCTETS = 4"

text \<open>Modelled from the spec: the field macros of vm.h, which is not among the sources.
  Bits 0-7 of an instruction word are the opcode, bits 8-15 operand A, bits 16-23
  operand B, bits 24-31 operand C; OPMID is bits 8-23 and OPLONG is bits 8-31. (OPA and
  OPMID share bits under this layout; nothing proved below depends on where a field
  lies in the word.)\<close>

definition OPCODE :: "spn_uword \<Rightarrow> nat" where
  "OPCODE ins = unat (ins AND 0xff)"

definition OPA :: "spn_uword \<Rightarrow> nat" where
  "OPA ins = unat (drop_bit 8 ins AND 0xff)"

definition OPB :: "spn_uword \<Rightarrow> nat" where
  "OPB ins = unat (drop_bit 16 ins AND 0xff)"

definition OPC :: "spn_uword \<Rightarrow> nat" where
  "OPC ins = unat (drop_bit 24 ins AND 0xff)"

definition OPMID :: "spn_uword \<Rightarrow> nat" where
  "OPMID ins = unat (drop_bit 8 ins AND 0xffff)"

definition OPLONG :: "spn_uword \<Rightarrow> nat" where
  "OPLONG ins = unat (drop_bit 8 ins AND 0xffffff)"

text \<open>Modelled from the spec: the macro \<^verbatim>\<open>ROUNDUP\<close>, which is not among the sources. Inline
  operands are padded up to a whole number of words: \<^verbatim>\<open>ROUNDUP(n, w)\<close> is the number of
  units of size \<open>w\<close> that hold \<open>n\<close>.\<close>

definition ROUNDUP :: "nat \<Rightarrow> nat \<Rightarrow> nat" where
  "ROUNDUP n w = (n + w - 1) div w"

text \<open>The enumerators that the switch statements of the disassembler name. Their
  declarations (vm.h) are not among the sources, so the numbers they stand for are
  parameters of the model.\<close>

datatype spn_vm_ins =
    SPN_INS_CALL | SPN_INS_RET | SPN_INS_JMP | SPN_INS_JZE | SPN_INS_JNZ
  | SPN_INS_EQ | SPN_INS_NE | SPN_INS_LT | SPN_INS_LE | SPN_INS_GT | SPN_INS_GE
  | SPN_INS_ADD | SPN_INS_SUB | SPN_INS_MUL | SPN_INS_DIV | SPN_INS_MOD
  | SPN_INS_NEG | SPN_INS_INC | SPN_INS_DEC
  | SPN_INS_AND | SPN_INS_OR | SPN_INS_XOR | SPN_INS_SHL | SPN_INS_SHR
  | SPN_INS_BITNOT | SPN_INS_LOGNOT | SPN_INS_SIZEOF | SPN_INS_TYPEOF
  | SPN_INS_CONCAT | SPN_INS_LDCONST | SPN_INS_LDSYM | SPN_INS_MOV | SPN_INS_LDARGC
  | SPN_INS_NEWARR | SPN_INS_ARRGET | SPN_INS_ARRSET | SPN_INS_NTHARG
  | SPN_INS_FUNCTION | SPN_INS_GLBVAL | SPN_INS_CLOSURE | SPN_INS_LDUPVAL

datatype spn_const_kind =
  SPN_CONST_NIL | SPN_CONST_TRUE | SPN_CONST_FALSE | SPN_CONST_INT | SPN_CONST_FLOAT

datatype spn_upval_type = SPN_UPVAL_LOCAL | SPN_UPVAL_OUTER

datatype spn_locsym = SPN_LOCSYM_STRCONST | SPN_LOCSYM_SYMSTUB | SPN_LOCSYM_FUNCDEF

definition all_ins :: "spn_vm_ins list" where
  "all_ins =
     [SPN_INS_CALL, SPN_INS_RET, SPN_INS_JMP, SPN_INS_JZE, SPN_INS_JNZ,
      SPN_INS_EQ, SPN_INS_NE, SPN_INS_LT, SPN_INS_LE, SPN_INS_GT, SPN_INS_GE,
      SPN_INS_ADD, SPN_INS_SUB, SPN_INS_MUL, SPN_INS_DIV, SPN_INS_MOD,
      SPN_INS_NEG, SPN_INS_INC, SPN_INS_DEC,
      SPN_INS_AND, SPN_INS_OR, SPN_INS_XOR, SPN_INS_SHL, SPN_INS_SHR,
      SPN_INS_BITNOT, SPN_INS_LOGNOT, SPN_INS_SIZEOF, SPN_INS_TYPEOF,
      SPN_INS_CONCAT, SPN_INS_LDCONST, SPN_INS_LDSYM, SPN_INS_MOV, SPN_INS_LDARGC,
      SPN_INS_NEWARR, SPN_INS_ARRGET, SPN_INS_ARRSET, SPN_INS_NTHARG,
      SPN_INS_FUNCTION, SPN_INS_GLBVAL, SPN_INS_CLOSURE, SPN_INS_LDUPVAL]"

definition all_const_kinds :: "spn_const_kind list" where
  "all_const_kinds =
     [SPN_CONST_NIL, SPN_CONST_TRUE, SPN_CONST_FALSE, SPN_CONST_INT, SPN_CONST_FLOAT]"

definition all_upval_types :: "spn_upval_type list" where
  "all_upval_types = [SPN_UPVAL_LOCAL, SPN_UPVAL_OUTER]"

definition all_locsyms :: "spn_locsym list" where
  "all_locsyms = [SPN_LOCSYM_STRCONST, SPN_LOCSYM_SYMSTUB, SPN_LOCSYM_FUNCDEF]"

text \<open>What the missing headers and the platform fix: the number of every enumerator, the
  layout of a function header (\<^verbatim>\<open>SPN_FUNCHDR_IDX_*\<close>, \<^verbatim>\<open>SPN_FUNCHDR_LEN\<close>), the size of a
  \<^verbatim>\<open>long\<close> in octets and the order of the octets of a word in memory.\<close>

record vm_params =
  ins_code :: "spn_vm_ins \<Rightarrow> nat"
  const_code :: "spn_const_kind \<Rightarrow> nat"
  upval_code :: "spn_upval_type \<Rightarrow> nat"
  locsym_code :: "spn_locsym \<Rightarrow> nat"
  FUNCHDR_IDX_BODYLEN :: nat
  FUNCHDR_IDX_ARGC :: nat
  FUNCHDR_IDX_NREGS :: nat
  FUNCHDR_IDX_SYMCNT :: nat
  FUNCHDR_LEN :: nat
  sizeof_long :: nat
  big_endian :: bool

text \<open>A \<^verbatim>\<open>switch\<close> on a number selects the label whose enumerator has that number, if
  there is one. C requires the labels of a switch to differ, so at most one does.\<close>

definition decode :: "('a \<Rightarrow> nat) \<Rightarrow> 'a list \<Rightarrow> nat \<Rightarrow> 'a option" where
  "decode code labels n = find (\<lambda>l. code l = n) labels"


definition arith_ins :: "spn_vm_ins list" where
  "arith_ins =
     [SPN_INS_EQ, SPN_INS_NE, SPN_INS_LT, SPN_INS_LE, SPN_INS_GT, SPN_INS_GE,
      SPN_INS_ADD, SPN_INS_SUB, SPN_INS_MUL, SPN_INS_DIV, SPN_INS_MOD]"

definition bitwise_ins :: "spn_vm_ins list" where
  "bitwise_ins = [SPN_INS_AND, SPN_INS_OR, SPN_INS_XOR, SPN_INS_SHL, SPN_INS_SHR]"

definition unary_ins :: "spn_vm_ins list" where
  "unary_ins = [SPN_INS_BITNOT, SPN_INS_LOGNOT, SPN_INS_SIZEOF, SPN_INS_TYPEOF]"


section \<open>Reading the image\<close>

text \<open>The disassembler returns 0, or -1 after \<^verbatim>\<open>bail\<close> has printed a message. It checks no
  read against the length of the file, so a malformed image can make it read outside
  the buffer or outside a name table; the C standard leaves the behaviour undefined
  there, and the model stops with \<open>Fault\<close> rather than invent a result.\<close>

datatype dis_error = Bail string | Fault string

definition fetch :: "spn_uword list \<Rightarrow> nat \<Rightarrow> dis_error + spn_uword" where
  "fetch bc i = (if i < length bc then Inr (bc ! i) else Inl (Fault ''read outside the image''))"

text \<open>The octets of a word in the order they lie in memory, and the octets of the image
  from the word at index \<open>i\<close> on: what \<^verbatim>\<open>(const char *)(ip)\<close> points to.\<close>

definition word_octets :: "bool \<Rightarrow> spn_uword \<Rightarrow> 8 word list" where
  "word_octets be w =
     (let le = [ucast w, ucast (drop_bit 8 w), ucast (drop_bit 16 w), ucast (drop_bit 24 w)]
      in if be then rev le else le)"

definition octets_from :: "vm_params \<Rightarrow> spn_uword list \<Rightarrow> nat \<Rightarrow> 8 word list" where
  "octets_from P bc i = concat (map (word_octets (big_endian P)) (drop i bc))"

text \<open>\<^verbatim>\<open>strlen\<close> on octets of the image: the number of octets before the first NUL. Without
  a NUL before the end of the image it reads outside the buffer.\<close>

definition strlen :: "8 word list \<Rightarrow> dis_error + nat" where
  "strlen bs =
     (if 0 \<in> set bs then Inr (length (takeWhile (\<lambda>b. b \<noteq> 0) bs))
      else Inl (Fault ''string without terminator''))"

definition c_string :: "8 word list \<Rightarrow> 8 word list" where
  "c_string bs = takeWhile (\<lambda>b. b \<noteq> 0) bs"

text \<open>\<^verbatim>\<open>memcpy\<close> of \<open>n\<close> octets out of the image, from the word at index \<open>i\<close>.\<close>

definition copy_octets :: "vm_params \<Rightarrow> spn_uword list \<Rightarrow> nat \<Rightarrow> nat \<Rightarrow> dis_error + 8 word list" where
  "copy_octets P bc i n =
     (if n \<le> length (octets_from P bc i) then Inr (take n (octets_from P bc i))
      else Inl (Fault ''read outside the image''))"

text \<open>Modelled from the spec: \<^verbatim>\<open>nth_arg_idx\<close>, which is not among the sources. The register
  indices of a call's arguments follow the instruction, four 8-bit indices per word.\<close>

definition nth_arg_idx :: "spn_uword list \<Rightarrow> nat \<Rightarrow> nat \<Rightarrow> dis_error + nat" where
  "nth_arg_idx bc ip i =
     (case fetch bc (ip + i div SPN_WORD_OCTETS) of
        Inl e \<Rightarrow> Inl e
      | Inr w \<Rightarrow> Inr (unat (drop_bit (8 * (i mod SPN_WORD_OCTETS)) w AND 0xff)))"

fun call_args :: "spn_uword list \<Rightarrow> nat \<Rightarrow> nat \<Rightarrow> nat \<Rightarrow> dis_error + nat list" where
  "call_args bc ip i 0 = Inr []"
| "call_args bc ip i (Suc n) =
     (case nth_arg_idx bc ip i of
        Inl e \<Rightarrow> Inl e
      | Inr r \<Rightarrow> (case call_args bc ip (Suc i) n of Inl e \<Rightarrow> Inl e | Inr rs \<Rightarrow> Inr (r # rs)))"

section \<open>Disassembling the executable section (spn.c)\<close>

text \<open>A printed line is kept as its parts, not as formatted text: the address, the number
  of tabs of indentation, the mnemonic and the operands.\<close>

datatype operand =
    Reg nat
  | Num int
  | Target int
  | Symbol nat
  | Keyword string
  | Octets "8 word list"
  | Callee nat "nat list"
  | Upvalue nat nat char

datatype dis_out =
    Heading string
  | Info string int
  | Blank
  | Line nat nat string "operand list"

definition MAX_FUNC_NEST :: nat where
  "MAX_FUNC_NEST = 0x1000"

text \<open>The three local tables \<^verbatim>\<open>opnames\<close> of \<^verbatim>\<open>disasm_exec\<close>.\<close>

definition arith_opnames :: "string list" where
  "arith_opnames =
     [''eq'', ''ne'', ''lt'', ''le'', ''gt'', ''ge'', ''add'', ''sub'', ''mul'', ''div'', ''mod'']"

definition bitwise_opnames :: "string list" where
  "bitwise_opnames = [''and'', ''or'', ''xor'', ''shl'', ''shr'']"

definition unary_opnames :: "string list" where
  "unary_opnames = [''bitnot'', ''lognot'', ''sizeof'', ''typeof'']"

text \<open>\<^verbatim>\<open>opnames[opidx]\<close> with \<^verbatim>\<open>int opidx = opcode - first\<close>: an index outside the table
  reads outside the array.\<close>

definition opname :: "string list \<Rightarrow> nat \<Rightarrow> nat \<Rightarrow> dis_error + string" where
  "opname opnames opcode first =
     (let opidx = int opcode - int first
      in if 0 \<le> opidx \<and> opidx < int (length opnames) then Inr (opnames ! nat opidx)
         else Inl (Fault ''read outside the name table''))"

text \<open>The upvalue descriptors of \<^verbatim>\<open>SPN_INS_CLOSURE\<close>: the loop over \<^verbatim>\<open>i\<close>, reading one word
  for each.\<close>

fun closure_upvals :: "vm_params \<Rightarrow> spn_uword list \<Rightarrow> nat \<Rightarrow> nat \<Rightarrow> nat \<Rightarrow> dis_error + operand list" where
  "closure_upvals P bc ip i 0 = Inr []"
| "closure_upvals P bc ip i (Suc n) =
     (case fetch bc ip of
        Inl e \<Rightarrow> Inl e
      | Inr upval_desc \<Rightarrow>
          (case decode (upval_code P) all_upval_types (OPCODE upval_desc) of
             None \<Rightarrow> Inl (Bail ''Unknown upvalue type'')
           | Some t \<Rightarrow>
               (case closure_upvals P bc (Suc ip) (Suc i) n of
                  Inl e \<Rightarrow> Inl e
                | Inr us \<Rightarrow>
                    Inr (Upvalue i (OPA upval_desc)
                           (case t of SPN_UPVAL_LOCAL \<Rightarrow> CHR ''L'' | SPN_UPVAL_OUTER \<Rightarrow> CHR ''O'')
                         # us))))"

text \<open>The case \<^verbatim>\<open>SPN_INS_LDCONST\<close>: the inner switch on the kind of constant.\<close>

definition disasm_ldconst ::
  "vm_params \<Rightarrow> spn_uword list \<Rightarrow> spn_uword \<Rightarrow> nat \<Rightarrow> dis_error + (string \<times> operand list \<times> nat)" where
  "disasm_ldconst P bc ins ip =
     (let dest = OPA ins; type = OPB ins
      in case decode (const_code P) all_const_kinds type of
           Some SPN_CONST_NIL \<Rightarrow> Inr (''ld'', [Reg dest, Keyword ''nil''], 0)
         | Some SPN_CONST_TRUE \<Rightarrow> Inr (''ld'', [Reg dest, Keyword ''true''], 0)
         | Some SPN_CONST_FALSE \<Rightarrow> Inr (''ld'', [Reg dest, Keyword ''false''], 0)
         | Some SPN_CONST_INT \<Rightarrow>
             (case copy_octets P bc ip (sizeof_long P) of
                Inl e \<Rightarrow> Inl e
              | Inr inum \<Rightarrow>
                  Inr (''ld'', [Reg dest, Octets inum], ROUNDUP (sizeof_long P) SPN_WORD_OCTETS))
         | Some SPN_CONST_FLOAT \<Rightarrow>
             (case copy_octets P bc ip 8 of
                Inl e \<Rightarrow> Inl e
              | Inr num \<Rightarrow> Inr (''ld'', [Reg dest, Octets num], ROUNDUP 8 SPN_WORD_OCTETS))
         | None \<Rightarrow> Inl (Bail ''incorrect constant kind in SPN_INS_LDCONST''))"

text \<open>The case \<^verbatim>\<open>SPN_INS_FUNCTION\<close>. The header follows the instruction word; the counts are
  stored into \<^verbatim>\<open>int\<close> variables and compared as such. Besides the line it gives the end
  address of the body, which goes into \<^verbatim>\<open>fnend[fnlevel - 1]\<close>.\<close>

definition disasm_function ::
  "vm_params \<Rightarrow> spn_uword list \<Rightarrow> nat \<Rightarrow> dis_error + (string \<times> operand list \<times> nat \<times> nat)" where
  "disasm_function P bc ip =
     (case fetch bc (ip + FUNCHDR_IDX_BODYLEN P) of
        Inl e \<Rightarrow> Inl e
      | Inr bodylen \<Rightarrow>
     (case fetch bc (ip + FUNCHDR_IDX_ARGC P) of
        Inl e \<Rightarrow> Inl e
      | Inr argc \<Rightarrow>
     (case fetch bc (ip + FUNCHDR_IDX_NREGS P) of
        Inl e \<Rightarrow> Inl e
      | Inr nregs \<Rightarrow>
          (if sint argc > sint nregs
           then Inl (Bail ''number of arguments is greater than number of registers!'')
           else Inr (''function'',
                     [Num (sint argc), Num (sint nregs), Num (uint bodylen), Num (int ip)],
                     FUNCHDR_LEN P,
                     ip + FUNCHDR_LEN P + unat bodylen)))))"

text \<open>The case \<^verbatim>\<open>SPN_INS_GLBVAL\<close>: the name follows the instruction word, and its length is
  OPMID of the instruction.\<close>

definition disasm_glbval ::
  "vm_params \<Rightarrow> spn_uword list \<Rightarrow> spn_uword \<Rightarrow> nat \<Rightarrow> dis_error + (string \<times> operand list \<times> nat)" where
  "disasm_glbval P bc ins ip =
     (let regidx = OPA ins;
          symname = octets_from P bc ip;
          namelen = OPMID ins
      in case strlen symname of
           Inl e \<Rightarrow> Inl e
         | Inr reallen \<Rightarrow>
             (let nwords = ROUNDUP (namelen + 1) SPN_WORD_OCTETS
              in if namelen \<noteq> reallen
                 then Inl (Bail ''symbol name length does not match expected'')
                 else Inr (''st'', [Reg regidx, Octets (c_string symname)], nwords)))"

text \<open>The cases with an inline jump offset: the offset is the next word, read as signed,
  and the target is counted from the word after it. The target is stored in an
  \<^verbatim>\<open>unsigned long\<close> and printed as such, so a target before the start of the image
  wraps around.\<close>

definition disasm_jump ::
  "vm_params \<Rightarrow> spn_uword list \<Rightarrow> string \<Rightarrow> operand list \<Rightarrow> nat \<Rightarrow>
   dis_error + (string \<times> operand list \<times> nat)" where
  "disasm_jump P bc name regs ip =
     (case fetch bc ip of
        Inl e \<Rightarrow> Inl e
      | Inr w \<Rightarrow>
          Inr (name,
               regs @ [Num (sint w),
                       Target ((int (Suc ip) + sint w) mod 2 ^ (8 * sizeof_long P))],
               1))"

text \<open>The switch of \<^verbatim>\<open>disasm_exec\<close> on the opcode of the instruction \<open>ins\<close>; \<open>ip\<close> is
  the index of the word after it. The result is the mnemonic, the operands and the
  number of inline words that the case skips; \<^verbatim>\<open>SPN_INS_FUNCTION\<close> is apart, since it
  writes \<^verbatim>\<open>fnend\<close> too.\<close>

definition disasm_ins ::
  "vm_params \<Rightarrow> spn_uword list \<Rightarrow> spn_uword \<Rightarrow> nat \<Rightarrow> dis_error + (string \<times> operand list \<times> nat)" where
  "disasm_ins P bc ins ip =
     (let opcode = OPCODE ins; opa = OPA ins; opb = OPB ins; opc = OPC ins
      in case decode (ins_code P) all_ins opcode of
           None \<Rightarrow> Inl (Bail ''unrecognized opcode'')
         | Some l \<Rightarrow>
             (if l = SPN_INS_CALL then
                (case call_args bc ip 0 opc of
                   Inl e \<Rightarrow> Inl e
                 | Inr rs \<Rightarrow>
                     Inr (''call'', [Reg opa, Callee opb rs], ROUNDUP opc SPN_WORD_OCTETS))
              else if l = SPN_INS_RET then Inr (''ret'', [Reg opa], 0)
              else if l = SPN_INS_JMP then disasm_jump P bc ''jmp'' [] ip
              else if l = SPN_INS_JZE \<or> l = SPN_INS_JNZ then
                disasm_jump P bc (if opcode = ins_code P SPN_INS_JZE then ''jze'' else ''jnz'')
                  [Reg opa] ip
              else if l \<in> set arith_ins then
                (case opname arith_opnames opcode (ins_code P SPN_INS_EQ) of
                   Inl e \<Rightarrow> Inl e
                 | Inr name \<Rightarrow> Inr (name, [Reg opa, Reg opb, Reg opc], 0))
              else if l = SPN_INS_NEG then Inr (''neg'', [Reg opa, Reg opb], 0)
              else if l = SPN_INS_INC \<or> l = SPN_INS_DEC then
                Inr (if opcode = ins_code P SPN_INS_INC then ''inc'' else ''dec'', [Reg opa], 0)
              else if l \<in> set bitwise_ins then
                (case opname bitwise_opnames opcode (ins_code P SPN_INS_AND) of
                   Inl e \<Rightarrow> Inl e
                 | Inr name \<Rightarrow> Inr (name, [Reg opa, Reg opb, Reg opc], 0))
              else if l \<in> set unary_ins then
                (case opname unary_opnames opcode (ins_code P SPN_INS_BITNOT) of
                   Inl e \<Rightarrow> Inl e
                 | Inr name \<Rightarrow> Inr (name, [Reg opa, Reg opb], 0))
              else if l = SPN_INS_CONCAT then Inr (''concat'', [Reg opa, Reg opb, Reg opc], 0)
              else if l = SPN_INS_LDCONST then disasm_ldconst P bc ins ip
              else if l = SPN_INS_LDSYM then Inr (''ld'', [Reg opa, Symbol (OPMID ins)], 0)
              else if l = SPN_INS_MOV then Inr (''mov'', [Reg opa, Reg opb], 0)
              else if l = SPN_INS_LDARGC then Inr (''ld'', [Reg opa, Keyword ''argc''], 0)
              else if l = SPN_INS_NEWARR then Inr (''ld'', [Reg opa, Keyword ''new array''], 0)
              else if l = SPN_INS_ARRGET then Inr (''arrget'', [Reg opa, Reg opb, Reg opc], 0)
              else if l = SPN_INS_ARRSET then Inr (''arrset'', [Reg opa, Reg opb, Reg opc], 0)
              else if l = SPN_INS_NTHARG then Inr (''getarg'', [Reg opa, Reg opb], 0)
              else if l = SPN_INS_FUNCTION then
                (case disasm_function P bc ip of
                   Inl e \<Rightarrow> Inl e
                 | Inr (name, ops, skip, end) \<Rightarrow> Inr (name, ops, skip))
              else if l = SPN_INS_GLBVAL then disasm_glbval P bc ins ip
              else if l = SPN_INS_CLOSURE then
                (case closure_upvals P bc ip 0 opb of
                   Inl e \<Rightarrow> Inl e
                 | Inr us \<Rightarrow> Inr (''closure'', Reg opa # us, opb))
              else Inr (''ldupval'', [Reg opa, Num (int opb)], 0)))"

text \<open>One turn of the loop of \<^verbatim>\<open>disasm_exec\<close>. The state is the instruction pointer and
  the stack of function ends: \<open>fnend\<close> holds \<^verbatim>\<open>fnend[fnlevel - 1]\<close> first and
  \<^verbatim>\<open>fnend[0]\<close> last, so its length is \<^verbatim>\<open>fnlevel\<close>. The slot that \<^verbatim>\<open>fnlevel++\<close> adds holds
  0 until the case \<^verbatim>\<open>SPN_INS_FUNCTION\<close> of the switch stores the end of the body there.
  The turn gives the lines it prints, the number of inline words it skips after the
  instruction word, and the new stack.\<close>

definition disasm_step ::
  "vm_params \<Rightarrow> spn_uword list \<Rightarrow> nat \<Rightarrow> nat list \<Rightarrow> dis_error + (dis_out list \<times> nat \<times> nat list)" where
  "disasm_step P bc ip fnend =
     (case fetch bc ip of
        Inl e \<Rightarrow> Inl e
      | Inr ins \<Rightarrow>
          (let opcode = OPCODE ins; addr = ip
           in if length fnend \<ge> MAX_FUNC_NEST
              then Inl (Bail ''more than 4095 nested function definitions'')
              else
                (let popped = (fnend \<noteq> [] \<and> ip = hd fnend);
                     fnend1 = (if popped then tl fnend else fnend);
                     is_fn = (opcode = ins_code P SPN_INS_FUNCTION);
                     fnend2 = (if is_fn then 0 # fnend1 else fnend1);
                     tabs = (length fnend2 - 1) + (if is_fn then 0 else 1);
                     blanks = (if popped then [Blank] else []) @ (if is_fn then [Blank] else [])
                 in case disasm_ins P bc ins (Suc ip) of
                      Inl e \<Rightarrow> Inl e
                    | Inr (name, ops, skip) \<Rightarrow>
                        (let fnend3 =
                           (if decode (ins_code P) all_ins opcode = Some SPN_INS_FUNCTION
                            then (case disasm_function P bc (Suc ip) of
                                    Inr (n, os, k, end) \<Rightarrow> end # tl fnend2
                                  | Inl e \<Rightarrow> fnend2)
                            else fnend2)
                         in Inr (blanks @ [Line addr tabs name ops], skip, fnend3)))))"

text \<open>The loop \<^verbatim>\<open>while (ip < text + textlen)\<close>; \<open>tend\<close> is \<^verbatim>\<open>text + textlen\<close>. Every turn
  moves the instruction pointer past the instruction word and its inline words.\<close>

function disasm_loop ::
  "vm_params \<Rightarrow> spn_uword list \<Rightarrow> nat \<Rightarrow> nat \<Rightarrow> nat list \<Rightarrow> dis_error + dis_out list" where
  "disasm_loop P bc tend ip fnend =
     (if ip < tend then
        (case disasm_step P bc ip fnend of
           Inl e \<Rightarrow> Inl e
         | Inr (out, skip, fnend') \<Rightarrow>
             (case disasm_loop P bc tend (Suc ip + skip) fnend' of
                Inl e \<Rightarrow> Inl e
              | Inr rest \<Rightarrow> Inr (out @ rest)))
      else Inr [])"
  by pat_completeness auto
termination
  by (relation "measure (\<lambda>(P, bc, tend, ip, fnend). tend - ip)") auto

declare disasm_loop.simps [simp del]

text \<open>\<^verbatim>\<open>disasm_exec(bc, textlen)\<close>: the text starts after the header of the top-level
  program, and \<^verbatim>\<open>fnend[0]\<close> is its end.\<close>

definition disasm_exec :: "vm_params \<Rightarrow> spn_uword list \<Rightarrow> nat \<Rightarrow> dis_error + dis_out list" where
  "disasm_exec P bc textlen =
     (let text = FUNCHDR_LEN P
      in case disasm_loop P bc (text + textlen) text [text + textlen] of
           Inl e \<Rightarrow> Inl e
         | Inr out \<Rightarrow> Inr (Heading ''# executable section:'' # out))"

section \<open>Disassembling the local symbol table (spn.c)\<close>

text \<open>A string constant or a symbol stub: the octets follow the tag word, and OPLONG of
  the tag word is the expected length. The result is the expected length, the string
  and the number of words it takes.\<close>

definition disasm_symstring ::
  "vm_params \<Rightarrow> spn_uword list \<Rightarrow> spn_uword \<Rightarrow> nat \<Rightarrow> string \<Rightarrow>
   dis_error + (nat \<times> 8 word list \<times> nat)" where
  "disasm_symstring P bc ins ip msg =
     (let cstr = octets_from P bc ip
      in case strlen cstr of
           Inl e \<Rightarrow> Inl e
         | Inr len \<Rightarrow>
             (let nwords = ROUNDUP (len + 1) SPN_WORD_OCTETS;
                  explen = OPLONG ins
              in if len \<noteq> explen then Inl (Bail msg)
                 else Inr (explen, c_string cstr, nwords)))"

text \<open>A function definition: the tag word is followed by the offset of the function, the
  length of its name and the name.\<close>

definition disasm_funcdef ::
  "vm_params \<Rightarrow> spn_uword list \<Rightarrow> nat \<Rightarrow> dis_error + (operand list \<times> nat)" where
  "disasm_funcdef P bc ip =
     (case fetch bc ip of
        Inl e \<Rightarrow> Inl e
      | Inr offset \<Rightarrow>
     (case fetch bc (Suc ip) of
        Inl e \<Rightarrow> Inl e
      | Inr namelen \<Rightarrow>
          (let name = octets_from P bc (Suc (Suc ip))
           in case strlen name of
                Inl e \<Rightarrow> Inl e
              | Inr reallen \<Rightarrow>
                  (let nwords = ROUNDUP (unat namelen + 1) SPN_WORD_OCTETS
                   in if unat namelen \<noteq> reallen
                      then Inl (Bail ''function name: actual name length does not match expected'')
                      else Inr ([Octets (c_string name), Num (uint offset)], 2 + nwords)))))"

text \<open>One entry of the symbol table, at the index \<open>ip\<close>: the line printed for symbol \<open>i\<close> and
  the index after the entry.\<close>

definition disasm_symbol ::
  "vm_params \<Rightarrow> spn_uword list \<Rightarrow> nat \<Rightarrow> nat \<Rightarrow> dis_error + (dis_out \<times> nat)" where
  "disasm_symbol P bc ip i =
     (case fetch bc ip of
        Inl e \<Rightarrow> Inl e
      | Inr ins \<Rightarrow>
          (let kind = OPCODE ins; addr = ip
           in case decode (locsym_code P) all_locsyms kind of
                Some SPN_LOCSYM_STRCONST \<Rightarrow>
                  (case disasm_symstring P bc ins (Suc ip)
                          ''string literal: actual string length does not match expected'' of
                     Inl e \<Rightarrow> Inl e
                   | Inr (explen, cstr, k) \<Rightarrow>
                       Inr (Line addr 0 ''string'' [Symbol i, Num (int explen), Octets cstr],
                            Suc ip + k))
              | Some SPN_LOCSYM_SYMSTUB \<Rightarrow>
                  (case disasm_symstring P bc ins (Suc ip)
                          ''symbol stub: actual name length does not match expected'' of
                     Inl e \<Rightarrow> Inl e
                   | Inr (explen, symname, k) \<Rightarrow>
                       Inr (Line addr 0 ''global'' [Symbol i, Octets symname], Suc ip + k))
              | Some SPN_LOCSYM_FUNCDEF \<Rightarrow>
                  (case disasm_funcdef P bc (Suc ip) of
                     Inl e \<Rightarrow> Inl e
                   | Inr (ops, k) \<Rightarrow> Inr (Line addr 0 ''function'' (Symbol i # ops), Suc ip + k))
              | None \<Rightarrow> Inl (Bail ''incorrect local symbol type'')))"

text \<open>The loop \<^verbatim>\<open>for (i = 0; i < nsyms; i++)\<close>, with \<open>n\<close> entries still to read: the lines
  and the index where the walk ends.\<close>

fun symtab_walk ::
  "vm_params \<Rightarrow> spn_uword list \<Rightarrow> nat \<Rightarrow> nat \<Rightarrow> nat \<Rightarrow> dis_error + (dis_out list \<times> nat)" where
  "symtab_walk P bc ip i 0 = Inr ([], ip)"
| "symtab_walk P bc ip i (Suc n) =
     (case disasm_symbol P bc ip i of
        Inl e \<Rightarrow> Inl e
      | Inr (line, ip') \<Rightarrow>
          (case symtab_walk P bc ip' (Suc i) n of
             Inl e \<Rightarrow> Inl e
           | Inr (lines, ip'') \<Rightarrow> Inr (line # lines, ip'')))"

text \<open>\<^verbatim>\<open>disasm_symtab(bc, offset, datalen, nsyms)\<close>. The count is an \<^verbatim>\<open>int\<close>: the loop does
  not run when it is not positive. \<open>datalen\<close> is kept as an integer, so that
  \<^verbatim>\<open>bc + offset + datalen\<close> is the address that the machine computes (see
  \<open>disasm_bytecode\<close>).\<close>

definition disasm_symtab ::
  "vm_params \<Rightarrow> spn_uword list \<Rightarrow> nat \<Rightarrow> int \<Rightarrow> int \<Rightarrow> dis_error + dis_out list" where
  "disasm_symtab P bc offset datalen nsyms =
     (case symtab_walk P bc offset 0 (nat nsyms) of
        Inl e \<Rightarrow> Inl e
      | Inr (lines, ip) \<Rightarrow>
          (if int ip > int offset + datalen
           then Inl (Bail ''bytecode is longer than length in header'')
           else if int ip < int offset + datalen
           then Inl (Bail ''bytecode is shorter than length in header'')
           else Inr (lines @ [Blank])))"

text \<open>\<^verbatim>\<open>disasm_bytecode(bc, len)\<close>, where \<open>len\<close> is the number of words of the file. The
  offset of the symbol table is computed in \<^verbatim>\<open>spn_uword\<close>, and so is the length of the
  text passed to \<^verbatim>\<open>disasm_exec\<close>. \<^verbatim>\<open>len - symtaboff\<close> is computed in \<^verbatim>\<open>size_t\<close> and wraps
  around when the offset lies behind the end of the file; the pointer addition
  \<^verbatim>\<open>bc + offset + datalen\<close> in \<^verbatim>\<open>disasm_symtab\<close> wraps back, so that the address compared
  with the cursor is \<^verbatim>\<open>bc + len\<close> in either case. The model keeps the difference as an
  integer. The status is 0 exactly when the result is \<open>Inr\<close>.\<close>

definition disasm_bytecode :: "vm_params \<Rightarrow> spn_uword list \<Rightarrow> dis_error + dis_out list" where
  "disasm_bytecode P bc =
     (let len = length bc
      in case fetch bc (FUNCHDR_IDX_BODYLEN P) of
           Inl e \<Rightarrow> Inl e
         | Inr bodylen \<Rightarrow>
        (case fetch bc (FUNCHDR_IDX_SYMCNT P) of
           Inl e \<Rightarrow> Inl e
         | Inr symtablen \<Rightarrow>
        (case fetch bc (FUNCHDR_IDX_NREGS P) of
           Inl e \<Rightarrow> Inl e
         | Inr nregs \<Rightarrow>
             (let symtaboff = bodylen + of_nat (FUNCHDR_LEN P)
              in case disasm_exec P bc (unat (symtaboff - of_nat (FUNCHDR_LEN P))) of
                   Inl e \<Rightarrow> Inl e
                 | Inr text_out \<Rightarrow>
                     (case disasm_symtab P bc (unat symtaboff)
                             (int len - int (unat symtaboff)) (sint symtablen) of
                        Inl e \<Rightarrow> Inl e
                      | Inr sym_out \<Rightarrow>
                          Inr ([Heading ''# program header:'',
                                Info ''# number of registers'' (uint nregs)]
                               @ text_out
                               @ [Heading ''# local symbol table:'',
                                  Info ''# start address'' (uint symtaboff),
                                  Info ''# number of symbols'' (uint symtablen)]
                               @ sym_out))))))"

text \<open>The status that the C function returns: 0, or -1 after \<^verbatim>\<open>bail\<close>; none where the
  behaviour is undefined.\<close>

definition status_of :: "dis_error + 'a \<Rightarrow> int option" where
  "status_of r = (case r of Inl (Bail m) \<Rightarrow> Some (-1) | Inl (Fault m) \<Rightarrow> None | Inr x \<Rightarrow> Some 0)"

section \<open>Sample parameters\<close>

text \<open>One choice of the parameters, for running the model on concrete images: the
  enumerators are numbered from 0 in the order in which the switch statements list
  them, the header fields lie in the order in which the spec lists them (SYMCNT,
  BODYLEN, ARGC, NREGS), a \<^verbatim>\<open>long\<close> has 8 octets and the low octet of a word comes first.\<close>

definition index_of :: "'a list \<Rightarrow> 'a \<Rightarrow> nat" where
  "index_of xs x = length (takeWhile (\<lambda>y. y \<noteq> x) xs)"

definition sample_params :: vm_params where
  "sample_params =
     \<lparr>ins_code = index_of all_ins,
      const_code = index_of all_const_kinds,
      upval_code = index_of all_upval_types,
      locsym_code = index_of all_locsyms,
      FUNCHDR_IDX_BODYLEN = 1,
      FUNCHDR_IDX_ARGC = 2,
      FUNCHDR_IDX_NREGS = 3,
      FUNCHDR_IDX_SYMCNT = 0,
      FUNCHDR_LEN = 4,
      sizeof_long = 8,
      big_endian = False\<rparr>"

text \<open>A small image under these parameters. Header: three symbols, two words of text, no
  arguments, one register. Text: \<^verbatim>\<open>GLBVAL\<close> with the name \<open>g\<close> of length 1. Symbol table: the
  string constant \<open>hi\<close>, the symbol stub \<open>pr\<close>, and the definition of the function \<open>f\<close> at
  offset 4, whose tag word carries no length.\<close>

definition sample_image :: "spn_uword list" where
  "sample_image =
     [3, 2, 0, 1,
      0x00000126, 0x00000067,
      0x00000200, 0x00006968,
      0x00000201, 0x00007270,
      0x00000002, 4, 1, 0x00000066]"

text \<open>A Context for running the driver on concrete inputs. Its state is the last error:
  message, kind and stack trace. A function object is its source text, and so is a
  value. A statement compiles when it ends in a semicolon, and every text compiles as
  an expression unless it is empty; calling a function whose text contains \<open>!\<close> raises
  a runtime error. Three source files can be read, and one object file, \<^verbatim>\<open>ok.spo\<close>, can
  be executed.\<close>

type_synonym sample_ctx = "string \<times> spn_error_type \<times> string list"

definition sample_call :: "sample_ctx \<Rightarrow> string \<Rightarrow> sample_ctx \<times> int \<times> string" where
  "sample_call c fn =
     (if CHR ''!'' \<in> set fn
      then ((''runtime error: '' @ fn, SPN_ERROR_RUNTIME, [''f'', ''main'']), -1, [])
      else (c, 0, fn))"

definition sample_load :: "sample_ctx \<Rightarrow> string \<Rightarrow> sample_ctx \<times> string option" where
  "sample_load c src =
     (if src \<noteq> [] \<and> last src = CHR '';'' then (c, Some src)
      else ((''syntax error: expected ;'', SPN_ERROR_SYNTAX, []), None))"

definition sample_api :: "(sample_ctx, string, string) spn_api" where
  "sample_api =
     \<lparr>read_text_file =
        (\<lambda>name. if name = ''empty.spn'' then Some ''#!/usr/bin/env spn''
                else if name = ''mixed.spn'' then Some (''#!x'' @ [LF] @ ''foo;'' @ [CR] @ ''bar;'')
                else if name = ''hello.spn'' then Some ''print(1);''
                else None),
      ctx_loadstring = sample_load,
      ctx_compile_expr =
        (\<lambda>c src. if src = [] then ((''syntax error: expected expression'', SPN_ERROR_SYNTAX, []), None)
                  else (c, Some src)),
      ctx_callfunc = (\<lambda>c fn args. sample_call c fn),
      ctx_execstring =
        (\<lambda>c src. case sample_load c src of
                    (c1, None) \<Rightarrow> (c1, -1, [])
                  | (c1, Some fn) \<Rightarrow> sample_call c1 fn),
      ctx_execobjfile =
        (\<lambda>c name. if name = ''ok.spo'' then (c, 0)
                   else ((''generic error: cannot open file'', SPN_ERROR_GENERIC, []), -1)),
      ctx_geterrmsg = (\<lambda>c. fst c),
      ctx_geterrtype = (\<lambda>c. fst (snd c)),
      ctx_stacktrace = (\<lambda>c. snd (snd c)),
      makestring_nocopy = (\<lambda>s. s),
      isnil = (\<lambda>v. v = []),
      repl_print = (\<lambda>v. v)\<rparr>"

section \<open>Notions used in the statements\<close>



text \<open>The loop of \<^verbatim>\<open>disasm_exec\<close> gets from one state to another: the instruction pointer
  and the stack of function ends after some number of turns.\<close>

inductive dis_reaches ::
  "vm_params \<Rightarrow> spn_uword list \<Rightarrow> nat \<Rightarrow> nat \<times> nat list \<Rightarrow> nat \<times> nat list \<Rightarrow> bool"
  for P :: vm_params and bc :: "spn_uword list" and tend :: nat where
    here: "dis_reaches P bc tend s s"
  | turn: "ip < tend \<Longrightarrow> disasm_step P bc ip fnend = Inr (out, skip, fnend') \<Longrightarrow>
           dis_reaches P bc tend (Suc ip + skip, fnend') s \<Longrightarrow>
           dis_reaches P bc tend (ip, fnend) s"

text \<open>The instruction at the index \<open>ip\<close> is one that \<^verbatim>\<open>disasm_exec(bc, textlen)\<close> gets to.\<close>

definition exec_reaches :: "vm_params \<Rightarrow> spn_uword list \<Rightarrow> nat \<Rightarrow> nat \<Rightarrow> nat list \<Rightarrow> bool" where
  "exec_reaches P bc textlen ip fnend =
     (ip < FUNCHDR_LEN P + textlen \<and>
      dis_reaches P bc (FUNCHDR_LEN P + textlen)
        (FUNCHDR_LEN P, [FUNCHDR_LEN P + textlen]) (ip, fnend))"

text \<open>Entry \<open>k\<close> of the symbol table that starts at \<open>offset\<close> lies at the index \<open>ip\<close>: the
  walk over the \<open>k\<close> entries before it ends there.\<close>

definition symbol_at :: "vm_params \<Rightarrow> spn_uword list \<Rightarrow> nat \<Rightarrow> nat \<Rightarrow> nat \<Rightarrow> bool" where
  "symbol_at P bc offset k ip =
     (case symtab_walk P bc offset 0 k of Inl e \<Rightarrow> False | Inr (lines, ip') \<Rightarrow> ip' = ip)"

text \<open>Where the string of a symbol-table entry starts, counted in words from its tag
  word, and the length that the entry states for it: for a string constant and a symbol
  stub OPLONG of the tag word, for a function definition the second word after the tag
  word.\<close>

definition string_offset :: "spn_locsym \<Rightarrow> nat" where
  "string_offset kind = (case kind of SPN_LOCSYM_FUNCDEF \<Rightarrow> 3 | _ \<Rightarrow> 1)"

definition stated_length :: "spn_uword list \<Rightarrow> nat \<Rightarrow> spn_locsym \<Rightarrow> nat" where
  "stated_length bc ip kind =
     (case kind of SPN_LOCSYM_FUNCDEF \<Rightarrow> unat (bc ! (ip + 2)) | _ \<Rightarrow> OPLONG (bc ! ip))"

section \<open>The class UIDs\<close>

lemmas class_uid_defs =
  SPN_CLASS_UID_STRING_def SPN_CLASS_UID_ARRAY_def SPN_CLASS_UID_HASHMAP_def
  SPN_CLASS_UID_FUNCTION_def SPN_CLASS_UID_FILEHANDLE_def SPN_CLASS_UID_SYMTABENTRY_def
  SPN_CLASS_UID_SYMBOLSTUB_def

text \<open>Claim C8. The class UIDs of the classes of the core are exactly the numbers 1 to 7,
  the lowest UID for user classes is 0x10000, and no UID of the core is as large as
  that: the two ranges are disjoint.\<close>

theorem core_class_uids_below_user_base:
  "set core_class_uids = {1..7} \<and> SPN_USER_CLASS_UID_BASE = 0x10000
   \<and> set core_class_uids \<inter> {SPN_USER_CLASS_UID_BASE..} = {}"
  by (auto simp: core_class_uids_def class_uid_defs SPN_USER_CLASS_UID_BASE_def)

section \<open>Command-line arguments\<close>










section \<open>Scripts that start with a shebang\<close>

lemma strchr_None: "c \<notin> set s \<Longrightarrow> strchr s c = None"
  by (induction s) auto

lemma c_str_prefix2: "take 2 bytes = ''#!'' \<Longrightarrow> take 2 (c_str bytes) = ''#!''"
  by (cases bytes; cases "tl bytes") (auto simp: c_str_def NUL_def)

lemma set_c_str: "set (c_str bytes) \<subseteq> set bytes"
  by (auto simp: c_str_def dest: set_takeWhileD)

text \<open>Claim C1, at an input where the code departs from it. The file starts with a
  shebang line that ends in a line feed; the second line ends in a carriage return.
  The text after the first line terminator is \<open>foo;\<close>, the carriage return and \<open>bar;\<close>,
  but the compiler is given \<open>bar;\<close> only: the second line is skipped too.\<close>

theorem shebang_mixed_line_endings_drop_second_line:
  "script_source (''#!x'' @ [LF] @ ''foo;'' @ [CR] @ ''bar;'') = Some ''bar;''
   \<and> run_script_file sample_api ([], SPN_ERROR_NONE, []) ''mixed.spn'' [''mixed.spn'']
       = (([], SPN_ERROR_NONE, []), 0,
          [Call_loadstring ''bar;'', Free_buf, Call_callfunc ''bar;'' [''mixed.spn'']])"
  by (simp add: script_source_def run_script_file_def c_str_def sample_api_def sample_load_def
        sample_call_def LF_def CR_def NUL_def)

text \<open>Where the code does skip exactly the first line: when only one of the two line
  terminators occurs in the file from the end of the first line on, and when the first
  line ends in a carriage return and a line feed next to each other, in either
  order.\<close>

lemma strchr_first:
  "c \<notin> set pre \<Longrightarrow> strchr (pre @ c # rest) c = Some (length pre)"
  by (induction pre) auto

lemma strchr_None_iff: "strchr s c = None \<longleftrightarrow> c \<notin> set s"
  by (induction s) auto

lemma script_source_one_kind:
  assumes "take 2 (line @ t # rest) = ''#!''"
    and "t = LF \<or> t = CR"
    and "LF \<notin> set line" and "CR \<notin> set line"
    and "(if t = LF then CR else LF) \<notin> set rest"
  shows "script_source (line @ t # rest) = Some rest"
proof -
  have ne: "LF \<noteq> CR"
    by (simp add: LF_def CR_def)
  show ?thesis
  proof (cases "t = LF")
    case True
    then have "strchr (line @ t # rest) LF = Some (length line)"
      using assms(3) by (simp add: strchr_first)
    moreover have "strchr (line @ t # rest) CR = None"
      using True assms(4,5) ne by (simp add: strchr_None_iff)
    ultimately show ?thesis
      using assms(1) by (simp add: script_source_def)
  next
    case False
    then have t: "t = CR"
      using assms(2) by simp
    then have "strchr (line @ t # rest) CR = Some (length line)"
      using assms(4) by (simp add: strchr_first)
    moreover have "strchr (line @ t # rest) LF = None"
      using t assms(3,5) ne by (simp add: strchr_None_iff)
    ultimately show ?thesis
      using assms(1) by (simp add: script_source_def)
  qed
qed

lemma script_source_two_octets:
  assumes "take 2 (line @ t # u # rest) = ''#!''"
    and "(t = CR \<and> u = LF) \<or> (t = LF \<and> u = CR)"
    and "LF \<notin> set line" and "CR \<notin> set line"
  shows "script_source (line @ t # u # rest) = Some rest"
proof -
  have ne: "LF \<noteq> CR"
    by (simp add: LF_def CR_def)
  have first: "strchr (line @ t # u # rest) t = Some (length line)"
    using assms(2,3,4) by (auto simp: strchr_first)
  have "u \<notin> set (line @ [t])"
    using assms(2,3,4) ne by auto
  then have "strchr ((line @ [t]) @ u # rest) u = Some (length (line @ [t]))"
    by (rule strchr_first)
  then have second: "strchr (line @ t # u # rest) u = Some (Suc (length line))"
    by simp
  show ?thesis
    using assms(1,2) first second ne by (auto simp: script_source_def)
qed

text \<open>Claim C10. A source file that begins with \<open>#!\<close> and contains neither a line feed
  nor a carriage return is an empty script: the buffer is released and 0 is returned,
  and neither the compiler nor any function is called.\<close>

theorem shebang_without_newline_is_empty_script:
  assumes "read_text_file api fname = Some bytes"
    and "take 2 bytes = ''#!''" and "LF \<notin> set bytes" and "CR \<notin> set bytes"
  shows "run_script_file api ctx fname argv = (ctx, 0, [Free_buf])"
proof -
  have "strchr (c_str bytes) LF = None" "strchr (c_str bytes) CR = None"
    using assms(3,4) set_c_str [of bytes] by (auto intro: strchr_None)
  then have "script_source (c_str bytes) = None"
    using c_str_prefix2 [OF assms(2)] by (simp add: script_source_def)
  then show ?thesis
    using assms(1) by (simp add: run_script_file_def)
qed

theorem shebang_without_newline_witness:
  "run_script_file sample_api ([], SPN_ERROR_NONE, []) ''empty.spn'' [''empty.spn'']
     = (([], SPN_ERROR_NONE, []), 0, [Free_buf])"
  using shebang_without_newline_is_empty_script
          [of sample_api "''empty.spn''" "''#!/usr/bin/env spn''" "([], SPN_ERROR_NONE, [])"
              "[''empty.spn'']"]
  by (simp add: sample_api_def LF_def CR_def)

section \<open>Reporting errors\<close>












section \<open>The read-eval-print loop\<close>

text \<open>Claim C5. A line of the REPL is first executed as a statement. When that fails with
  an error that is not a runtime error, the line is compiled as an expression. If that
  compilation fails, the message printed is the one of the first attempt, not that of
  the second. If it succeeds and the call fails, the message printed is the new one,
  followed by the stack trace if one is due.\<close>

theorem repl_line_retries_as_expression:
  assumes "ctx_execstring api ctx buf = (cstmt, status, ret)"
    and "status \<noteq> 0"
    and "ctx_geterrtype api cstmt \<noteq> SPN_ERROR_RUNTIME"
  shows "(ctx_compile_expr api cstmt buf = (cexpr, None) \<longrightarrow>
            repl_line api args ctx buf =
              (cexpr, [Call_execstring buf, Call_compile_expr buf,
                      Stderr (CLR_ERR @ ctx_geterrmsg api cstmt @ CLR_RST @ [LF])]))
       \<and> (ctx_compile_expr api cstmt buf = (cexpr, Some fn)
            \<and> ctx_callfunc api cexpr fn [] = (ccall, cstatus, cret) \<and> cstatus \<noteq> 0 \<longrightarrow>
            repl_line api args ctx buf =
              (ccall, [Call_execstring buf, Call_compile_expr buf, Call_callfunc fn [],
                      Stderr (CLR_ERR @ ctx_geterrmsg api ccall @ CLR_RST @ [LF])]
                     @ print_stacktrace_if_needed api ccall))"
  using assms by (simp add: repl_line_def)

theorem repl_line_retries_witness:
  "repl_line sample_api 0 ([], SPN_ERROR_NONE, []) [] =
     ((''syntax error: expected expression'', SPN_ERROR_SYNTAX, []),
      [Call_execstring [], Call_compile_expr [], Stderr (''syntax error: expected ;'' @ [LF])])
   \<and> repl_line sample_api 0 ([], SPN_ERROR_NONE, []) ''1 / 0!'' =
     ((''runtime error: 1 / 0!'', SPN_ERROR_RUNTIME, [''f'', ''main'']),
      [Call_execstring ''1 / 0!'', Call_compile_expr ''1 / 0!'', Call_callfunc ''1 / 0!'' [],
       Stderr (''runtime error: 1 / 0!'' @ [LF]),
       Stderr (''Call stack:'' @ [LF, LF]),
       Stderr (stacktrace_line 0 ''f''), Stderr (stacktrace_line 1 ''main''),
       Stderr [LF]])"
  using repl_line_retries_as_expression
          [where api = sample_api and ctx = "([], SPN_ERROR_NONE, [])" and buf = "[]"
             and cstmt = "(''syntax error: expected ;'', SPN_ERROR_SYNTAX, [])"
             and status = "-1" and ret = "[]" and args = 0
             and cexpr = "(''syntax error: expected expression'', SPN_ERROR_SYNTAX, [])"]
        repl_line_retries_as_expression
          [where api = sample_api and ctx = "([], SPN_ERROR_NONE, [])" and buf = "''1 / 0!''"
             and cstmt = "(''syntax error: expected ;'', SPN_ERROR_SYNTAX, [])"
             and status = "-1" and ret = "[]" and args = 0
             and cexpr = "(''syntax error: expected ;'', SPN_ERROR_SYNTAX, [])"
             and fn = "''1 / 0!''"
             and ccall = "(''runtime error: 1 / 0!'', SPN_ERROR_RUNTIME, [''f'', ''main''])"
             and cstatus = "-1" and cret = "[]"]
  by (simp add: sample_api_def sample_load_def sample_call_def CLR_ERR_def CLR_RST_def
        print_stacktrace_if_needed_def)

section \<open>Mnemonics of the dense opcode ranges\<close>











section \<open>Errors end the disassembly\<close>

lemma disasm_loop_error:
  "ip < tend \<Longrightarrow> disasm_step P bc ip fnend = Inl e \<Longrightarrow> disasm_loop P bc tend ip fnend = Inl e"
  by (subst disasm_loop.simps) simp

lemma dis_reaches_error:
  "dis_reaches P bc tend s s' \<Longrightarrow> disasm_loop P bc tend (fst s') (snd s') = Inl e \<Longrightarrow>
   disasm_loop P bc tend (fst s) (snd s) = Inl e"
proof (induction rule: dis_reaches.induct)
  case (here s)
  then show ?case by simp
next
  case (turn ip fnend out skip fnend' s)
  then have "disasm_loop P bc tend (Suc ip + skip) fnend' = Inl e"
    by simp
  with turn.hyps(1,2) show ?case
    by (subst disasm_loop.simps) simp
qed

lemma exec_reaches_error:
  assumes "exec_reaches P bc textlen ip fnend" and "disasm_step P bc ip fnend = Inl e"
  shows "disasm_exec P bc textlen = Inl e"
proof -
  have "disasm_loop P bc (FUNCHDR_LEN P + textlen) ip fnend = Inl e"
    using assms by (simp add: exec_reaches_def disasm_loop_error)
  then have "disasm_loop P bc (FUNCHDR_LEN P + textlen) (FUNCHDR_LEN P)
               [FUNCHDR_LEN P + textlen] = Inl e"
    using dis_reaches_error
            [of P bc "FUNCHDR_LEN P + textlen" "(FUNCHDR_LEN P, [FUNCHDR_LEN P + textlen])"
                "(ip, fnend)" e]
      assms(1)
    by (simp add: exec_reaches_def)
  then show ?thesis
    by (simp add: disasm_exec_def Let_def)
qed

lemma disasm_step_bail:
  assumes "ip < length bc" and "disasm_ins P bc (bc ! ip) (Suc ip) = Inl (Bail m)"
  shows "\<exists>m'. disasm_step P bc ip fnend = Inl (Bail m')"
  using assms by (simp add: disasm_step_def fetch_def Let_def)

lemma exec_reaches_bail:
  assumes "exec_reaches P bc textlen ip fnend" and "ip < length bc"
    and "disasm_ins P bc (bc ! ip) (Suc ip) = Inl (Bail m)"
  shows "\<exists>m'. disasm_exec P bc textlen = Inl (Bail m')"
  using disasm_step_bail [OF assms(2,3)] exec_reaches_error [OF assms(1)] by blast

lemma exec_reaches_first:
  "0 < textlen \<Longrightarrow> exec_reaches P bc textlen (FUNCHDR_LEN P) [FUNCHDR_LEN P + textlen]"
  by (simp add: exec_reaches_def dis_reaches.here)

lemma symtab_walk_split:
  "symtab_walk P bc ip i (k + n) =
     (case symtab_walk P bc ip i k of
        Inl e \<Rightarrow> Inl e
      | Inr (lines, ip') \<Rightarrow>
          (case symtab_walk P bc ip' (i + k) n of
             Inl e \<Rightarrow> Inl e
           | Inr (lines', ip'') \<Rightarrow> Inr (lines @ lines', ip'')))"
proof (induction k arbitrary: ip i)
  case 0
  then show ?case by (simp split: sum.splits prod.splits)
next
  case (Suc k)
  show ?case
    by (simp add: Suc.IH split: sum.splits prod.splits)
qed

lemma symtab_walk_error_at:
  assumes "symbol_at P bc offset k ip" and "k < n" and "disasm_symbol P bc ip k = Inl e"
  shows "symtab_walk P bc offset 0 n = Inl e"
proof -
  have n: "n = k + Suc (n - Suc k)"
    using assms(2) by simp
  obtain lines where w: "symtab_walk P bc offset 0 k = Inr (lines, ip)"
    using assms(1) by (cases "symtab_walk P bc offset 0 k") (auto simp: symbol_at_def)
  have "symtab_walk P bc offset 0 (k + Suc (n - Suc k)) = Inl e"
    unfolding symtab_walk_split [of P bc offset 0 k "Suc (n - Suc k)"] w
    by (simp add: assms(3))
  then show ?thesis
    using n by simp
qed

lemma disasm_symtab_error_at:
  assumes "symbol_at P bc offset k ip" and "k < nat nsyms" and "disasm_symbol P bc ip k = Inl e"
  shows "disasm_symtab P bc offset datalen nsyms = Inl e"
  using symtab_walk_error_at [OF assms] by (simp add: disasm_symtab_def)

section \<open>Function headers\<close>

lemma disasm_ins_function:
  assumes "decode (ins_code P) all_ins (OPCODE ins) = Some SPN_INS_FUNCTION"
  shows "disasm_ins P bc ins ip =
           (case disasm_function P bc ip of
              Inl e \<Rightarrow> Inl e
            | Inr (name, ops, skip, end) \<Rightarrow> Inr (name, ops, skip))"
  using assms by (simp add: disasm_ins_def Let_def arith_ins_def bitwise_ins_def unary_ins_def)

lemma disasm_function_too_many_args:
  assumes "ip + FUNCHDR_IDX_BODYLEN P < length bc"
    and "ip + FUNCHDR_IDX_ARGC P < length bc"
    and "ip + FUNCHDR_IDX_NREGS P < length bc"
    and "sint (bc ! (ip + FUNCHDR_IDX_ARGC P)) > sint (bc ! (ip + FUNCHDR_IDX_NREGS P))"
  shows "disasm_function P bc ip =
           Inl (Bail ''number of arguments is greater than number of registers!'')"
  using assms by (simp add: disasm_function_def fetch_def)

text \<open>Claim C7, as amended. Let the disassembly of the executable section get to a
  \<^verbatim>\<open>FUNCTION\<close> instruction whose header lies inside the image, and let the argument count
  of the header exceed its register count, both read as the \<^verbatim>\<open>int\<close> values that the
  disassembler stores and prints. Then the disassembler does not go on: it reports an
  error and \<^verbatim>\<open>disasm_exec\<close> returns -1.\<close>

theorem function_header_argc_above_nregs_rejected:
  assumes "exec_reaches P bc textlen ip fnend"
    and "ip < length bc"
    and "decode (ins_code P) all_ins (OPCODE (bc ! ip)) = Some SPN_INS_FUNCTION"
    and "Suc ip + FUNCHDR_IDX_BODYLEN P < length bc"
    and "Suc ip + FUNCHDR_IDX_ARGC P < length bc"
    and "Suc ip + FUNCHDR_IDX_NREGS P < length bc"
    and "sint (bc ! (Suc ip + FUNCHDR_IDX_ARGC P)) > sint (bc ! (Suc ip + FUNCHDR_IDX_NREGS P))"
  shows "(\<exists>m. disasm_exec P bc textlen = Inl (Bail m))
         \<and> status_of (disasm_exec P bc textlen) = Some (-1)"
proof -
  have "disasm_ins P bc (bc ! ip) (Suc ip) =
          Inl (Bail ''number of arguments is greater than number of registers!'')"
    using disasm_function_too_many_args [OF assms(4,5,6,7)] disasm_ins_function [OF assms(3)]
    by simp
  then obtain m where "disasm_exec P bc textlen = Inl (Bail m)"
    using exec_reaches_bail [OF assms(1,2)] by blast
  then show ?thesis
    by (simp add: status_of_def)
qed

text \<open>An image whose text is a \<^verbatim>\<open>RET\<close> followed by a \<^verbatim>\<open>FUNCTION\<close> header with two arguments
  and one register.\<close>

theorem function_header_rejected_witness:
  "disasm_exec sample_params [0, 6, 0, 1, 0x01, 0x25, 0, 0, 2, 1] 6
     = Inl (Bail ''number of arguments is greater than number of registers!'')
   \<and> status_of (disasm_exec sample_params [0, 6, 0, 1, 0x01, 0x25, 0, 0, 2, 1] 6) = Some (-1)"
proof -
  have s: "disasm_step sample_params [0, 6, 0, 1, 0x01, 0x25, 0, 0, 2, 1] 4 [10]
             = Inr ([Line 4 1 ''ret'' [Reg 0]], 0, [10])"
    by code_simp
  have "dis_reaches sample_params [0, 6, 0, 1, 0x01, 0x25, 0, 0, 2, 1] 10 (4, [10]) (5, [10])"
    using dis_reaches.turn [OF _ s, of 10 "(5, [10])"] dis_reaches.here by simp
  then have r: "exec_reaches sample_params [0, 6, 0, 1, 0x01, 0x25, 0, 0, 2, 1] 6 5 [10]"
    by (simp add: exec_reaches_def sample_params_def)
  have d: "decode (ins_code sample_params) all_ins
             (OPCODE ([0, 6, 0, 1, 0x01, 0x25, 0, 0, 2, 1] ! 5)) = Some SPN_INS_FUNCTION"
    by code_simp
  have a: "sint ([0, 6, 0, 1, 0x01, 0x25, 0, 0, 2, 1 :: spn_uword]
                   ! (Suc 5 + FUNCHDR_IDX_ARGC sample_params))
           > sint ([0, 6, 0, 1, 0x01, 0x25, 0, 0, 2, 1 :: spn_uword]
                   ! (Suc 5 + FUNCHDR_IDX_NREGS sample_params))"
    by (simp add: sample_params_def)
  have "(\<exists>m. disasm_exec sample_params [0, 6, 0, 1, 0x01, 0x25, 0, 0, 2, 1] 6 = Inl (Bail m))
          \<and> status_of (disasm_exec sample_params [0, 6, 0, 1, 0x01, 0x25, 0, 0, 2, 1] 6) = Some (-1)"
    by (rule function_header_argc_above_nregs_rejected [OF r _ d _ _ _ a])
       (simp_all add: sample_params_def)
  moreover have "disasm_exec sample_params [0, 6, 0, 1, 0x01, 0x25, 0, 0, 2, 1] 6
     = Inl (Bail ''number of arguments is greater than number of registers!'')"
    by code_simp
  ultimately show ?thesis by simp
qed

text \<open>The claim as stated, for any header and for the counts as the header words hold
  them, fails in two ways. The header of the top-level program is not an instruction of
  the text, and its argument count is never read: an image whose program header has two
  arguments and one register is accepted. And the header of a nested function whose
  argument count is the word \<open>2 ^ 31\<close>, with no register, is accepted as well.\<close>

theorem function_header_argc_unchecked_cases:
  "uint ([0, 1, 2, 1, 0x01 :: spn_uword] ! FUNCHDR_IDX_ARGC sample_params)
     > uint ([0, 1, 2, 1, 0x01 :: spn_uword] ! FUNCHDR_IDX_NREGS sample_params)
   \<and> status_of (disasm_bytecode sample_params [0, 1, 2, 1, 0x01]) = Some 0
   \<and> decode (ins_code sample_params) all_ins
         (OPCODE ([0, 5, 0, 1, 0x25, 0, 0, 0x80000000, 0] ! 4)) = Some SPN_INS_FUNCTION
   \<and> uint ([0, 5, 0, 1, 0x25, 0, 0, 0x80000000, 0 :: spn_uword]
              ! (5 + FUNCHDR_IDX_ARGC sample_params))
       > uint ([0, 5, 0, 1, 0x25, 0, 0, 0x80000000, 0 :: spn_uword]
                ! (5 + FUNCHDR_IDX_NREGS sample_params))
   \<and> status_of (disasm_bytecode sample_params [0, 5, 0, 1, 0x25, 0, 0, 0x80000000, 0]) = Some 0"
  by code_simp

text \<open>The counts are compared as \<^verbatim>\<open>int\<close> values. For counts below \<open>2 ^ 31\<close> that is the
  comparison of the header words as unsigned numbers; a word from \<open>2 ^ 31\<close> on is a
  negative count to the disassembler, which prints it so and goes on.\<close>

lemma sint_small:
  fixes w :: spn_uword
  assumes u: "uint w < 2 ^ 31"
  shows "sint w = uint w"
proof -
  have "\<not> bit (uint w) 31"
    using u by (simp add: bit_iff_odd)
  then have "signed_take_bit 31 (uint w) = take_bit 31 (uint w)"
    by (rule signed_take_bit_eq_if_positive)
  also have "\<dots> = uint w"
    using u by (simp add: take_bit_int_eq_self)
  finally show ?thesis
    by (simp add: sint_uint)
qed

lemma counts_unsigned_reading:
  fixes argc nregs :: spn_uword
  assumes "uint argc < 2 ^ 31" and "uint nregs < 2 ^ 31"
  shows "sint argc > sint nregs \<longleftrightarrow> uint argc > uint nregs"
  by (simp add: sint_small [OF assms(1)] sint_small [OF assms(2)])

lemma function_header_counts_are_ints:
  "disasm_exec sample_params [0, 5, 0, 1, 0x25, 0, 0, 0x80000000, 0] 5
     = Inr [Heading ''# executable section:'', Blank,
            Line 4 1 ''function'' [Num (- 2147483648), Num 0, Num 0, Num 5]]"
  by code_simp

section \<open>String lengths\<close>

lemma disasm_symbol_funcdef:
  assumes "ip + 3 \<le> length bc"
    and "decode (locsym_code P) all_locsyms (OPCODE (bc ! ip)) = Some SPN_LOCSYM_FUNCDEF"
    and "strlen (octets_from P bc (ip + 3)) = Inr len"
  shows "(unat (bc ! (ip + 2)) \<noteq> len \<longrightarrow> (\<exists>m. disasm_symbol P bc ip i = Inl (Bail m)))
       \<and> (unat (bc ! (ip + 2)) = len \<longrightarrow>
            (\<exists>line. disasm_symbol P bc ip i = Inr (line, ip + 3 + ROUNDUP (len + 1) SPN_WORD_OCTETS)))"
proof -
  have e: "ip + 3 = Suc (Suc (Suc ip))" "ip + 2 = Suc (Suc ip)"
    by simp_all
  show ?thesis
    using assms unfolding e
    by (simp add: disasm_symbol_def disasm_funcdef_def fetch_def Let_def)
qed

lemma disasm_symbol_string:
  assumes "ip < length bc"
    and "decode (locsym_code P) all_locsyms (OPCODE (bc ! ip)) = Some kind"
    and "kind \<noteq> SPN_LOCSYM_FUNCDEF"
    and "strlen (octets_from P bc (Suc ip)) = Inr len"
  shows "(OPLONG (bc ! ip) \<noteq> len \<longrightarrow> (\<exists>m. disasm_symbol P bc ip i = Inl (Bail m)))
       \<and> (OPLONG (bc ! ip) = len \<longrightarrow>
            (\<exists>line. disasm_symbol P bc ip i = Inr (line, Suc ip + ROUNDUP (len + 1) SPN_WORD_OCTETS)))"
  using assms
  by (cases kind) (simp_all add: disasm_symbol_def disasm_symstring_def fetch_def Let_def)

lemma disasm_symbol_lengths:
  assumes "ip + string_offset kind \<le> length bc"
    and "decode (locsym_code P) all_locsyms (OPCODE (bc ! ip)) = Some kind"
    and "strlen (octets_from P bc (ip + string_offset kind)) = Inr len"
  shows "(stated_length bc ip kind \<noteq> len \<longrightarrow> (\<exists>m. disasm_symbol P bc ip i = Inl (Bail m)))
       \<and> (stated_length bc ip kind = len \<longrightarrow>
            (\<exists>line. disasm_symbol P bc ip i =
               Inr (line, ip + string_offset kind + ROUNDUP (len + 1) SPN_WORD_OCTETS)))"
proof (cases "kind = SPN_LOCSYM_FUNCDEF")
  case True
  have "string_offset kind = 3" "stated_length bc ip kind = unat (bc ! (ip + 2))"
    using True by (simp_all add: string_offset_def stated_length_def)
  then show ?thesis
    using assms True disasm_symbol_funcdef [of ip bc P len i] by simp
next
  case False
  then have "string_offset kind = 1" "stated_length bc ip kind = OPLONG (bc ! ip)"
    by (cases kind; simp add: string_offset_def stated_length_def)+
  then show ?thesis
    using assms False disasm_symbol_string [of ip bc P kind len i] by simp
qed

lemma disasm_ins_glbval:
  assumes "decode (ins_code P) all_ins (OPCODE ins) = Some SPN_INS_GLBVAL"
  shows "disasm_ins P bc ins ip = disasm_glbval P bc ins ip"
  using assms by (simp add: disasm_ins_def Let_def arith_ins_def bitwise_ins_def unary_ins_def)

lemma disasm_glbval_lengths:
  assumes "strlen (octets_from P bc ip) = Inr len"
  shows "(OPMID ins \<noteq> len \<longrightarrow>
            disasm_glbval P bc ins ip = Inl (Bail ''symbol name length does not match expected''))
       \<and> (OPMID ins = len \<longrightarrow>
            disasm_glbval P bc ins ip =
              Inr (''st'', [Reg (OPA ins), Octets (c_string (octets_from P bc ip))],
                   ROUNDUP (len + 1) SPN_WORD_OCTETS))"
  using assms by (simp add: disasm_glbval_def Let_def)

text \<open>Claim C3, as amended. For every string of an image that the disassembler gets to,
  the length that the image states for it is compared with the number of octets before
  the NUL: when the two differ the disassembler reports an error and returns -1, and
  the entry is processed, the cursor moving past the padded string, only when they
  agree. The stated length is OPLONG of the tag word for a string constant and for a
  symbol stub, OPMID of the instruction word for the name of \<^verbatim>\<open>GLBVAL\<close>, and for a
  function definition it is the second word after the tag word, not a field of the tag
  word.\<close>

theorem string_length_checked_against_terminator:
  "(symbol_at P bc offset k ip \<and> k < nat nsyms \<and> ip + string_offset kind \<le> length bc
      \<and> decode (locsym_code P) all_locsyms (OPCODE (bc ! ip)) = Some kind
      \<and> strlen (octets_from P bc (ip + string_offset kind)) = Inr len \<longrightarrow>
      (stated_length bc ip kind \<noteq> len \<longrightarrow>
         (\<exists>m. disasm_symtab P bc offset datalen nsyms = Inl (Bail m)))
      \<and> (stated_length bc ip kind = len \<longrightarrow>
           (\<exists>line. disasm_symbol P bc ip k =
              Inr (line, ip + string_offset kind + ROUNDUP (len + 1) SPN_WORD_OCTETS))))
   \<and> (exec_reaches P bc textlen a fnend \<and> a < length bc
        \<and> decode (ins_code P) all_ins (OPCODE (bc ! a)) = Some SPN_INS_GLBVAL
        \<and> strlen (octets_from P bc (Suc a)) = Inr glen \<longrightarrow>
        (OPMID (bc ! a) \<noteq> glen \<longrightarrow> (\<exists>m. disasm_exec P bc textlen = Inl (Bail m)))
        \<and> (OPMID (bc ! a) = glen \<longrightarrow>
             disasm_ins P bc (bc ! a) (Suc a) =
               Inr (''st'', [Reg (OPA (bc ! a)), Octets (c_string (octets_from P bc (Suc a)))],
                    ROUNDUP (glen + 1) SPN_WORD_OCTETS)))"
proof (intro conjI impI)
  assume h: "symbol_at P bc offset k ip \<and> k < nat nsyms \<and> ip + string_offset kind \<le> length bc
      \<and> decode (locsym_code P) all_locsyms (OPCODE (bc ! ip)) = Some kind
      \<and> strlen (octets_from P bc (ip + string_offset kind)) = Inr len"
  note L = disasm_symbol_lengths [of ip kind bc P len k]
  {
    assume "stated_length bc ip kind \<noteq> len"
    then obtain m where "disasm_symbol P bc ip k = Inl (Bail m)"
      using L h by blast
    then show "\<exists>m. disasm_symtab P bc offset datalen nsyms = Inl (Bail m)"
      using disasm_symtab_error_at [of P bc offset k ip nsyms "Bail m" datalen] h by blast
  }
  {
    assume "stated_length bc ip kind = len"
    then show "\<exists>line. disasm_symbol P bc ip k =
              Inr (line, ip + string_offset kind + ROUNDUP (len + 1) SPN_WORD_OCTETS)"
      using L h by blast
  }
next
  assume g: "exec_reaches P bc textlen a fnend \<and> a < length bc
        \<and> decode (ins_code P) all_ins (OPCODE (bc ! a)) = Some SPN_INS_GLBVAL
        \<and> strlen (octets_from P bc (Suc a)) = Inr glen"
  then have i: "disasm_ins P bc (bc ! a) (Suc a) = disasm_glbval P bc (bc ! a) (Suc a)"
    using disasm_ins_glbval by blast
  note G = disasm_glbval_lengths [of P bc "Suc a" glen "bc ! a"]
  {
    assume "OPMID (bc ! a) \<noteq> glen"
    then have "disasm_ins P bc (bc ! a) (Suc a) =
                 Inl (Bail ''symbol name length does not match expected'')"
      using G g i by simp
    then show "\<exists>m. disasm_exec P bc textlen = Inl (Bail m)"
      using exec_reaches_bail [of P bc textlen a fnend] g by blast
  }
  {
    assume "OPMID (bc ! a) = glen"
    then show "disasm_ins P bc (bc ! a) (Suc a) =
               Inr (''st'', [Reg (OPA (bc ! a)), Octets (c_string (octets_from P bc (Suc a)))],
                    ROUNDUP (glen + 1) SPN_WORD_OCTETS)"
      using G g i by simp
  }
qed

theorem string_length_checked_witness:
  "(\<exists>line. disasm_symbol sample_params sample_image 10 2 = Inr (line, 14))
   \<and> (\<exists>m. disasm_symtab sample_params (sample_image[12 := 2]) 6 8 3 = Inl (Bail m))
   \<and> disasm_ins sample_params sample_image (sample_image ! 4) 5
        = Inr (''st'', [Reg 1, Octets [103]], 1)
   \<and> (\<exists>m. disasm_exec sample_params (sample_image[4 := 0x226]) 2 = Inl (Bail m))"
proof -
  have good_sym:
    "symbol_at sample_params sample_image 6 2 10 \<and> 2 < nat 3
     \<and> 10 + string_offset SPN_LOCSYM_FUNCDEF \<le> length sample_image
     \<and> decode (locsym_code sample_params) all_locsyms (OPCODE (sample_image ! 10))
         = Some SPN_LOCSYM_FUNCDEF
     \<and> strlen (octets_from sample_params sample_image (10 + string_offset SPN_LOCSYM_FUNCDEF))
         = Inr 1"
    by code_simp
  have good_len: "stated_length sample_image 10 SPN_LOCSYM_FUNCDEF = 1"
    by code_simp
  have good_end: "10 + string_offset SPN_LOCSYM_FUNCDEF + ROUNDUP (1 + 1) SPN_WORD_OCTETS = 14"
    by code_simp
  have bad_sym:
    "symbol_at sample_params (sample_image[12 := 2]) 6 2 10 \<and> 2 < nat 3
     \<and> 10 + string_offset SPN_LOCSYM_FUNCDEF \<le> length (sample_image[12 := 2])
     \<and> decode (locsym_code sample_params) all_locsyms (OPCODE (sample_image[12 := 2] ! 10))
         = Some SPN_LOCSYM_FUNCDEF
     \<and> strlen (octets_from sample_params (sample_image[12 := 2])
                 (10 + string_offset SPN_LOCSYM_FUNCDEF)) = Inr 1"
    by code_simp
  have bad_len: "stated_length (sample_image[12 := 2]) 10 SPN_LOCSYM_FUNCDEF \<noteq> 1"
    by code_simp
  have good_ins:
    "exec_reaches sample_params sample_image 2 4 [6] \<and> 4 < length sample_image
     \<and> decode (ins_code sample_params) all_ins (OPCODE (sample_image ! 4)) = Some SPN_INS_GLBVAL
     \<and> strlen (octets_from sample_params sample_image (Suc 4)) = Inr 1"
    using exec_reaches_first [of 2 sample_params sample_image]
    by (simp add: sample_params_def) code_simp
  have good_mid: "OPMID (sample_image ! 4) = 1"
    by code_simp
  have good_st:
    "(''st'', [Reg (OPA (sample_image ! 4)),
               Octets (c_string (octets_from sample_params sample_image (Suc 4)))],
      ROUNDUP (1 + 1) SPN_WORD_OCTETS) = (''st'', [Reg 1, Octets [103]], 1)"
    by code_simp
  have bad_ins:
    "exec_reaches sample_params (sample_image[4 := 0x226]) 2 4 [6]
     \<and> 4 < length (sample_image[4 := 0x226])
     \<and> decode (ins_code sample_params) all_ins (OPCODE (sample_image[4 := 0x226] ! 4))
         = Some SPN_INS_GLBVAL
     \<and> strlen (octets_from sample_params (sample_image[4 := 0x226]) (Suc 4)) = Inr 1"
    using exec_reaches_first [of 2 sample_params "sample_image[4 := 0x226]"]
    by (simp add: sample_params_def) code_simp
  have bad_mid: "OPMID (sample_image[4 := 0x226] ! 4) \<noteq> 1"
    by code_simp
  note T = string_length_checked_against_terminator
  have "\<exists>line. disasm_symbol sample_params sample_image 10 2 = Inr (line, 14)"
    using T [where P = sample_params and bc = sample_image and offset = 6 and k = 2 and ip = 10
               and nsyms = 3 and kind = SPN_LOCSYM_FUNCDEF and len = 1,
             THEN conjunct1, THEN mp, OF good_sym, THEN conjunct2, THEN mp, OF good_len]
    unfolding good_end .
  moreover have "\<exists>m. disasm_symtab sample_params (sample_image[12 := 2]) 6 8 3 = Inl (Bail m)"
    by (rule T [where P = sample_params and bc = "sample_image[12 := 2]" and offset = 6 and k = 2
               and ip = 10 and nsyms = 3 and kind = SPN_LOCSYM_FUNCDEF and len = 1
               and datalen = 8,
             THEN conjunct1, THEN mp, OF bad_sym, THEN conjunct1, THEN mp, OF bad_len])
  moreover have "disasm_ins sample_params sample_image (sample_image ! 4) 5
        = Inr (''st'', [Reg 1, Octets [103]], 1)"
    using T [where P = sample_params and bc = sample_image and textlen = 2 and a = 4
               and fnend = "[6]" and glen = 1,
             THEN conjunct2, THEN mp, OF good_ins, THEN conjunct2, THEN mp, OF good_mid]
    unfolding good_st by simp
  moreover have "\<exists>m. disasm_exec sample_params (sample_image[4 := 0x226]) 2 = Inl (Bail m)"
    by (rule T [where P = sample_params and bc = "sample_image[4 := 0x226]" and textlen = 2
               and a = 4 and fnend = "[6]" and glen = 1,
             THEN conjunct2, THEN mp, OF bad_ins, THEN conjunct1, THEN mp, OF bad_mid])
  ultimately show ?thesis
    by simp
qed

text \<open>The claim as stated names the tag word as the place of every length. In the sample
  image the tag word of the function definition states the length 0 while the name \<open>f\<close>
  has one octet before its NUL, and yet the entry and the whole image are accepted:
  the length that is compared, 1, is the second word after the tag word.\<close>

theorem funcdef_tag_word_length_not_compared:
  "decode (locsym_code sample_params) all_locsyms (OPCODE (sample_image ! 10))
     = Some SPN_LOCSYM_FUNCDEF
   \<and> OPLONG (sample_image ! 10) = 0
   \<and> strlen (octets_from sample_params sample_image 13) = Inr 1
   \<and> disasm_symbol sample_params sample_image 10 2
       = Inr (Line 10 0 ''function'' [Symbol 2, Octets [102], Num 4], 14)
   \<and> status_of (disasm_bytecode sample_params sample_image) = Some 0"
  by code_simp

section \<open>The end of the symbol table\<close>

lemma disasm_symtab_end_check:
  assumes "symtab_walk P bc offset 0 (nat nsyms) = Inr (lines, ip)"
  shows "disasm_symtab P bc offset (int (length bc) - int offset) nsyms =
           (if ip > length bc then Inl (Bail ''bytecode is longer than length in header'')
            else if ip < length bc then Inl (Bail ''bytecode is shorter than length in header'')
            else Inr (lines @ [Blank]))"
  using assms by (simp add: disasm_symtab_def)

text \<open>Claim C4. Let the header of an image be readable and the disassembly of its text
  succeed, and let the walk over the symbol table, from the offset BODYLEN plus the
  length of the header and for SYMCNT entries, come to its end at the index \<open>ip\<close>. Then
  the disassembly of the image succeeds if \<open>ip\<close> is the length of the image, and it
  fails with an error both if \<open>ip\<close> lies behind the end of the image and if \<open>ip\<close> lies
  before it.\<close>

theorem symbol_table_must_end_at_end_of_image:
  assumes "FUNCHDR_IDX_BODYLEN P < length bc"
    and "FUNCHDR_IDX_SYMCNT P < length bc"
    and "FUNCHDR_IDX_NREGS P < length bc"
    and "disasm_exec P bc (unat (bc ! FUNCHDR_IDX_BODYLEN P)) = Inr text_out"
    and "symtab_walk P bc (unat (bc ! FUNCHDR_IDX_BODYLEN P + of_nat (FUNCHDR_LEN P))) 0
           (nat (sint (bc ! FUNCHDR_IDX_SYMCNT P))) = Inr (lines, ip)"
  shows "(ip = length bc \<longrightarrow> status_of (disasm_bytecode P bc) = Some 0)
       \<and> (ip > length bc \<longrightarrow>
            disasm_bytecode P bc = Inl (Bail ''bytecode is longer than length in header'')
            \<and> status_of (disasm_bytecode P bc) = Some (-1))
       \<and> (ip < length bc \<longrightarrow>
            disasm_bytecode P bc = Inl (Bail ''bytecode is shorter than length in header'')
            \<and> status_of (disasm_bytecode P bc) = Some (-1))"
  using assms disasm_symtab_end_check [OF assms(5)]
  by (simp add: disasm_bytecode_def fetch_def Let_def status_of_def)

text \<open>The sample image is accepted; with a word appended the walk ends before the end of
  the file. Under a layout where SYMCNT is the last field of the header, a text that
  ends inside the header of a nested function puts the symbol table behind the end of
  the file.\<close>

theorem symbol_table_end_witness:
  "status_of (disasm_bytecode sample_params sample_image) = Some 0
   \<and> disasm_bytecode sample_params (sample_image @ [0])
       = Inl (Bail ''bytecode is shorter than length in header'')
   \<and> disasm_bytecode
        (sample_params\<lparr>FUNCHDR_IDX_BODYLEN := 0, FUNCHDR_IDX_ARGC := 1,
                         FUNCHDR_IDX_NREGS := 2, FUNCHDR_IDX_SYMCNT := 3\<rparr>)
        [5, 0, 1, 0, 0x25, 0, 0, 0]
       = Inl (Bail ''bytecode is longer than length in header'')"
proof -
  let ?Q = "sample_params\<lparr>FUNCHDR_IDX_BODYLEN := 0, FUNCHDR_IDX_ARGC := 1,
                            FUNCHDR_IDX_NREGS := 2, FUNCHDR_IDX_SYMCNT := 3\<rparr>"
  let ?b = "[5, 0, 1, 0, 0x25, 0, 0, 0] :: spn_uword list"
  have a1: "FUNCHDR_IDX_BODYLEN sample_params < length sample_image"
      "FUNCHDR_IDX_SYMCNT sample_params < length sample_image"
      "FUNCHDR_IDX_NREGS sample_params < length sample_image"
      "disasm_exec sample_params sample_image
         (unat (sample_image ! FUNCHDR_IDX_BODYLEN sample_params))
       = Inr [Heading ''# executable section:'', Line 4 1 ''st'' [Reg 1, Octets [103]]]"
      "symtab_walk sample_params sample_image
         (unat (sample_image ! FUNCHDR_IDX_BODYLEN sample_params
                + of_nat (FUNCHDR_LEN sample_params))) 0
         (nat (sint (sample_image ! FUNCHDR_IDX_SYMCNT sample_params)))
       = Inr ([Line 6 0 ''string'' [Symbol 0, Num 2, Octets [104, 105]],
               Line 8 0 ''global'' [Symbol 1, Octets [112, 114]],
               Line 10 0 ''function'' [Symbol 2, Octets [102], Num 4]], 14)"
    by code_simp+
  have a2: "FUNCHDR_IDX_BODYLEN sample_params < length (sample_image @ [0])"
      "FUNCHDR_IDX_SYMCNT sample_params < length (sample_image @ [0])"
      "FUNCHDR_IDX_NREGS sample_params < length (sample_image @ [0])"
      "disasm_exec sample_params (sample_image @ [0])
         (unat ((sample_image @ [0]) ! FUNCHDR_IDX_BODYLEN sample_params))
       = Inr [Heading ''# executable section:'', Line 4 1 ''st'' [Reg 1, Octets [103]]]"
      "symtab_walk sample_params (sample_image @ [0])
         (unat ((sample_image @ [0]) ! FUNCHDR_IDX_BODYLEN sample_params
                + of_nat (FUNCHDR_LEN sample_params))) 0
         (nat (sint ((sample_image @ [0]) ! FUNCHDR_IDX_SYMCNT sample_params)))
       = Inr ([Line 6 0 ''string'' [Symbol 0, Num 2, Octets [104, 105]],
               Line 8 0 ''global'' [Symbol 1, Octets [112, 114]],
               Line 10 0 ''function'' [Symbol 2, Octets [102], Num 4]], 14)"
    by code_simp+
  have a3: "FUNCHDR_IDX_BODYLEN ?Q < length ?b"
      "FUNCHDR_IDX_SYMCNT ?Q < length ?b"
      "FUNCHDR_IDX_NREGS ?Q < length ?b"
      "disasm_exec ?Q ?b (unat (?b ! FUNCHDR_IDX_BODYLEN ?Q))
       = Inr [Heading ''# executable section:'', Blank,
              Line 4 1 ''function'' [Num 0, Num 0, Num 0, Num 5]]"
      "symtab_walk ?Q ?b (unat (?b ! FUNCHDR_IDX_BODYLEN ?Q + of_nat (FUNCHDR_LEN ?Q))) 0
         (nat (sint (?b ! FUNCHDR_IDX_SYMCNT ?Q))) = Inr ([], 9)"
    by code_simp+
  have l: "length sample_image = 14" "length (sample_image @ [0]) = 15" "length ?b = 8"
    by (simp_all add: sample_image_def)
  show ?thesis
    using symbol_table_must_end_at_end_of_image [OF a1]
      symbol_table_must_end_at_end_of_image [OF a2]
      symbol_table_must_end_at_end_of_image [OF a3]
    by (simp only: l)
qed

end
